theory Spec2Isabelle
  imports
    Complex_Main
    "HOL-Library.Char_ord"
    "HOL-Library.List_Lexorder"
    "HOL-Library.Product_Lexorder"
begin

section \<open>Python strings\<close>

text \<open>
  A Python \<open>str\<close> is modelled as a \<open>string\<close> whose characters stand for the code
  points 0 to 255. On these code points \<open>str.isspace\<close>, the regular expression class
  \<open>\s\<close>, \<open>str.strip()\<close> and \<open>str.split()\<close> agree on what whitespace is, and
  \<open>str.lower()\<close> maps a character to one character.
\<close>

definition py_isspace :: "char \<Rightarrow> bool" where
  "py_isspace c = ((of_char c :: nat) \<in> set [9, 10, 11, 12, 13, 28, 29, 30, 31, 32, 133, 160])"

definition py_lower_char :: "char \<Rightarrow> char" where
  "py_lower_char c =
     (let n = (of_char c :: nat) in
      if (65 \<le> n \<and> n \<le> 90) \<or> (192 \<le> n \<and> n \<le> 222 \<and> n \<noteq> 215)
      then char_of (n + 32) else c)"

definition py_lower :: "string \<Rightarrow> string" where
  "py_lower s = map py_lower_char s"

text \<open>\<open>s.strip()\<close>: whitespace removed at both ends.\<close>

definition py_strip :: "string \<Rightarrow> string" where
  "py_strip s = rev (dropWhile py_isspace (rev (dropWhile py_isspace s)))"

text \<open>\<open>s.split()\<close>: the maximal runs of non-whitespace characters, in order.
  The first argument is the word being read.\<close>

fun split_ws :: "string \<Rightarrow> string \<Rightarrow> string list" where
  "split_ws w [] = (if w = [] then [] else [w])"
| "split_ws w (c # cs) =
     (if py_isspace c then (if w = [] then split_ws [] cs else w # split_ws [] cs)
      else split_ws (w @ [c]) cs)"

definition py_split :: "string \<Rightarrow> string list" where
  "py_split s = split_ws [] s"

text \<open>\<open>s.split(sep)\<close> for a one-character separator: never empty.\<close>

fun split_on :: "char \<Rightarrow> string \<Rightarrow> string list" where
  "split_on sep [] = [[]]"
| "split_on sep (c # cs) =
     (if c = sep then [] # split_on sep cs
      else (case split_on sep cs of [] \<Rightarrow> [[c]] | p # ps \<Rightarrow> (c # p) # ps))"

text \<open>\<open>sep.join(ws)\<close>.\<close>

fun py_join :: "string \<Rightarrow> string list \<Rightarrow> string" where
  "py_join sep [] = []"
| "py_join sep [w] = w"
| "py_join sep (w # v # ws) = w @ sep @ py_join sep (v # ws)"

text \<open>\<open>re.sub(r'\s+', ' ', s)\<close>: every maximal run of whitespace becomes one space.\<close>

function sub_ws :: "string \<Rightarrow> string" where
  "sub_ws [] = []"
| "sub_ws (c # cs) =
     (if py_isspace c then CHR '' '' # sub_ws (dropWhile py_isspace cs) else c # sub_ws cs)"
  by pat_completeness auto
termination
  by (relation "measure length") (auto simp: less_Suc_eq_le length_dropWhile_le)

text \<open>\<open>re.sub(r'[.,;:!?]', '', s)\<close>.\<close>

definition remove_punct :: "string \<Rightarrow> string" where
  "remove_punct s = filter (\<lambda>c. c \<notin> set ''.,;:!?'') s"

section \<open>name\_matching.py: IntelligentNameMatcher\<close>

definition prefixes :: "string list" where
  "prefixes = [''mr'', ''mrs'', ''ms'', ''dr'', ''prof'', ''sir'', ''dame'', ''lord'', ''lady'',
     ''rev'', ''father'', ''sister'', ''brother'']"

definition suffixes :: "string list" where
  "suffixes = [''jr'', ''sr'', ''ii'', ''iii'', ''iv'', ''esq'', ''md'', ''phd'', ''jd'', ''cpa'',
     ''cfa'', ''mba'', ''pe'', ''rn'']"

definition nickname_list :: "(string \<times> string) list" where
  "nickname_list =
    [(''bill'', ''william''), (''billy'', ''william''), (''will'', ''william''),
     (''bob'', ''robert''), (''bobby'', ''robert''), (''rob'', ''robert''), (''robbie'', ''robert''),
     (''dick'', ''richard''), (''rick'', ''richard''), (''ricky'', ''richard''), (''rich'', ''richard''),
     (''jim'', ''james''), (''jimmy'', ''james''), (''jamie'', ''james''),
     (''mike'', ''michael''), (''micky'', ''michael''), (''mickey'', ''michael''),
     (''dave'', ''david''), (''davey'', ''david''),
     (''steve'', ''steven''), (''stevie'', ''steven''),
     (''chris'', ''christopher''), (''christi'', ''christopher''),
     (''dan'', ''daniel''), (''danny'', ''daniel''),
     (''tom'', ''thomas''), (''tommy'', ''thomas''),
     (''tony'', ''anthony''), (''ant'', ''anthony''),
     (''joe'', ''joseph''), (''joey'', ''joseph''),
     (''ben'', ''benjamin''), (''benny'', ''benjamin''),
     (''sam'', ''samuel''), (''sammy'', ''samuel''),
     (''matt'', ''matthew''), (''matty'', ''matthew''),
     (''nick'', ''nicholas''), (''nicky'', ''nicholas''),
     (''andy'', ''andrew''), (''drew'', ''andrew''),
     (''greg'', ''gregory''), (''greggy'', ''gregory''),
     (''pat'', ''patricia''), (''patty'', ''patricia''), (''patti'', ''patricia''),
     (''liz'', ''elizabeth''), (''beth'', ''elizabeth''), (''betty'', ''elizabeth''),
     (''betsy'', ''elizabeth''),
     (''sue'', ''susan''), (''susie'', ''susan''), (''suzy'', ''susan''),
     (''kathy'', ''katherine''), (''kate'', ''katherine''), (''katie'', ''katherine''),
     (''kit'', ''katherine''),
     (''jen'', ''jennifer''), (''jenny'', ''jennifer''), (''jenn'', ''jennifer''),
     (''amy'', ''amelia''), (''mel'', ''amelia''), (''melly'', ''amelia'')]"

text \<open>\<open>self.nickname_map.get(word, word)\<close>.\<close>

definition nickname :: "string \<Rightarrow> string" where
  "nickname w = (case map_of nickname_list w of Some full \<Rightarrow> full | None \<Rightarrow> w)"

text \<open>The two \<open>while\<close> loops of \<open>normalize_name\<close>: \<open>words.pop(0)\<close> while the first word
  is a prefix, \<open>words.pop()\<close> while the last word is a suffix.\<close>

definition pop_prefixes :: "string list \<Rightarrow> string list" where
  "pop_prefixes ws = dropWhile (\<lambda>w. w \<in> set prefixes) ws"

definition pop_suffixes :: "string list \<Rightarrow> string list" where
  "pop_suffixes ws = rev (dropWhile (\<lambda>w. w \<in> set suffixes) (rev ws))"

text \<open>The comma step of \<open>normalize_name\<close> (lines 87 to 93), applied to the string that
  the punctuation step has produced.\<close>

definition reorder_comma :: "string \<Rightarrow> string" where
  "reorder_comma normalized =
     (if CHR '','' \<in> set normalized then
        (let parts = map py_strip (split_on (CHR '','') normalized) in
         if 2 \<le> length parts
         then py_join '' '' (py_split (parts ! 1)) @ '' '' @ (parts ! 0)
         else normalized)
      else normalized)"

definition normalize_name :: "string \<Rightarrow> string" where
  "normalize_name name =
     (if name = [] \<or> py_strip name = [] then []
      else
        (let normalized = sub_ws (py_strip (py_lower name));
             normalized = remove_punct normalized;
             normalized = reorder_comma normalized;
             words = py_split normalized;
             words = pop_prefixes words;
             words = pop_suffixes words;
             words = filter (\<lambda>word. 1 < length word) words;
             words = map nickname words
         in py_join '' '' words))"

section \<open>Words of a normalized name\<close>

lemma py_lower_char_idem: "py_lower_char (py_lower_char c) = py_lower_char c"
  by (auto simp: py_lower_char_def Let_def)

lemma py_isspace_space: "py_isspace (CHR '' '')"
  by (simp add: py_isspace_def)

lemma split_ws_app:
  "\<forall>c\<in>set u. \<not> py_isspace c \<Longrightarrow> split_ws w (u @ rest) = split_ws (w @ u) rest"
  by (induction u arbitrary: w) auto

lemma split_ws_words:
  "v \<in> set (split_ws w s) \<Longrightarrow> v \<noteq> [] \<and> set v \<subseteq> set w \<union> {c \<in> set s. \<not> py_isspace c}"
proof (induction s arbitrary: w)
  case Nil
  then show ?case by (auto split: if_splits)
next
  case (Cons c cs)
  then show ?case by (fastforce split: if_splits)
qed

lemma py_split_words:
  "v \<in> set (py_split s) \<Longrightarrow> v \<noteq> [] \<and> set v \<subseteq> {c \<in> set s. \<not> py_isspace c}"
  using split_ws_words [of v "[]" s] by (simp add: py_split_def)

text \<open>A word as \<open>normalize_name\<close> leaves it: not empty, no whitespace, no punctuation,
  in lower case; a final word is also longer than one character and not a nickname.\<close>

definition clean_word :: "string \<Rightarrow> bool" where
  "clean_word w =
     (w \<noteq> [] \<and> (\<forall>c\<in>set w. \<not> py_isspace c \<and> c \<notin> set ''.,;:!?'' \<and> py_lower_char c = c))"

definition final_word :: "string \<Rightarrow> bool" where
  "final_word w = (clean_word w \<and> 1 < length w \<and> nickname w = w)"

lemma py_join_Cons: "py_join sep (w # ws) = (if ws = [] then w else w @ sep @ py_join sep ws)"
  by (cases ws) simp_all

lemma split_ws_join:
  assumes "\<forall>w\<in>set ws. w \<noteq> [] \<and> (\<forall>c\<in>set w. \<not> py_isspace c)"
  shows "split_ws [] (py_join '' '' ws) = ws"
  using assms
proof (induction ws)
  case Nil
  then show ?case by simp
next
  case (Cons w ws)
  show ?case
  proof (cases "ws = []")
    case True
    then show ?thesis using Cons.prems split_ws_app [of w "[]" "[]"] by simp
  next
    case False
    have "split_ws [] (w @ '' '' @ py_join '' '' ws) = split_ws w ('' '' @ py_join '' '' ws)"
      using Cons.prems split_ws_app [of w "[]"] by simp
    also have "\<dots> = w # split_ws [] (py_join '' '' ws)"
      using Cons.prems by (simp add: py_isspace_space)
    finally show ?thesis using Cons False by (simp add: py_join_Cons)
  qed
qed

lemma py_split_join:
  "\<forall>w\<in>set ws. clean_word w \<Longrightarrow> py_split (py_join '' '' ws) = ws"
  unfolding py_split_def by (rule split_ws_join) (auto simp: clean_word_def)

lemma set_py_join: "set (py_join '' '' ws) \<subseteq> \<Union> (set ` set ws) \<union> {CHR '' ''}"
  by (induction ws) (auto simp: py_join_Cons split: if_splits)

lemma py_lower_join:
  "\<forall>w\<in>set ws. clean_word w \<Longrightarrow> py_lower (py_join '' '' ws) = py_join '' '' ws"
proof -
  assume a: "\<forall>w\<in>set ws. clean_word w"
  have "py_lower_char c = c" if "c \<in> set (py_join '' '' ws)" for c
    using that set_py_join [of ws] a by (auto simp: clean_word_def py_lower_char_def)
  then show ?thesis by (simp add: py_lower_def map_idI)
qed

lemma remove_punct_join:
  "\<forall>w\<in>set ws. clean_word w \<Longrightarrow> remove_punct (py_join '' '' ws) = py_join '' '' ws"
proof -
  assume a: "\<forall>w\<in>set ws. clean_word w"
  have "c \<notin> set ''.,;:!?''" if "c \<in> set (py_join '' '' ws)" for c
    using that set_py_join [of ws] a by (auto simp: clean_word_def)
  then show ?thesis unfolding remove_punct_def by (intro filter_True) blast
qed

lemma no_comma_join:
  "\<forall>w\<in>set ws. clean_word w \<Longrightarrow> CHR '','' \<notin> set (py_join '' '' ws)"
  using set_py_join [of ws] by (auto simp: clean_word_def)

lemma dropWhile_hd_id: "s \<noteq> [] \<Longrightarrow> \<not> P (hd s) \<Longrightarrow> dropWhile P s = s"
  by (cases s) simp_all

lemma py_strip_id:
  assumes "s \<noteq> []" "\<not> py_isspace (hd s)" "\<not> py_isspace (last s)"
  shows "py_strip s = s"
proof -
  have "dropWhile py_isspace s = s" using assms by (simp add: dropWhile_hd_id)
  moreover have "dropWhile py_isspace (rev s) = rev s"
    using assms by (intro dropWhile_hd_id) (simp_all add: hd_rev)
  ultimately show ?thesis by (simp add: py_strip_def)
qed

lemma py_join_nonempty: "ws \<noteq> [] \<Longrightarrow> \<forall>w\<in>set ws. w \<noteq> [] \<Longrightarrow> py_join sep ws \<noteq> []"
  by (cases ws) (auto simp: py_join_Cons)

lemma hd_py_join: "ws \<noteq> [] \<Longrightarrow> \<forall>w\<in>set ws. w \<noteq> [] \<Longrightarrow> hd (py_join sep ws) = hd (hd ws)"
  by (cases ws) (auto simp: py_join_Cons)

lemma last_py_join:
  "ws \<noteq> [] \<Longrightarrow> \<forall>w\<in>set ws. w \<noteq> [] \<Longrightarrow> last (py_join sep ws) = last (last ws)"
proof (induction ws)
  case Nil
  then show ?case by simp
next
  case (Cons w ws)
  then show ?case by (cases "ws = []") (auto simp: py_join_Cons py_join_nonempty)
qed

lemma py_strip_join:
  assumes "\<forall>w\<in>set ws. clean_word w"
  shows "py_strip (py_join '' '' ws) = py_join '' '' ws"
proof (cases "ws = []")
  case True
  then show ?thesis by (simp add: py_strip_def)
next
  case False
  have ne: "\<forall>w\<in>set ws. w \<noteq> []" using assms by (auto simp: clean_word_def)
  have "hd ws \<in> set ws" "last ws \<in> set ws" using False by simp_all
  then have "\<not> py_isspace (hd (hd ws))" "\<not> py_isspace (last (last ws))"
    using assms by (auto simp: clean_word_def)
  then show ?thesis
    using False ne by (intro py_strip_id) (simp_all add: py_join_nonempty hd_py_join last_py_join)
qed

lemma sub_ws_app:
  "\<forall>c\<in>set u. \<not> py_isspace c \<Longrightarrow> sub_ws (u @ rest) = u @ sub_ws rest"
  by (induction u) auto

lemma sub_ws_join:
  assumes "\<forall>w\<in>set ws. clean_word w"
  shows "sub_ws (py_join '' '' ws) = py_join '' '' ws"
  using assms
proof (induction ws)
  case Nil
  then show ?case by simp
next
  case (Cons w ws)
  have w: "\<forall>c\<in>set w. \<not> py_isspace c" using Cons.prems by (simp add: clean_word_def)
  show ?case
  proof (cases "ws = []")
    case True
    then show ?thesis using sub_ws_app [OF w, of "[]"] by simp
  next
    case False
    have ne: "\<forall>w\<in>set ws. w \<noteq> []" using Cons.prems by (auto simp: clean_word_def)
    have "hd ws \<in> set ws" using False by simp
    then have "\<not> py_isspace (hd (hd ws))" using Cons.prems by (auto simp: clean_word_def)
    then have "\<not> py_isspace (hd (py_join '' '' ws))" using False ne by (simp add: hd_py_join)
    moreover have "py_join '' '' ws \<noteq> []" using False ne by (rule py_join_nonempty)
    ultimately have "dropWhile py_isspace (py_join '' '' ws) = py_join '' '' ws"
      by (simp add: dropWhile_hd_id)
    then have "sub_ws ('' '' @ py_join '' '' ws) = '' '' @ py_join '' '' ws"
      using Cons by (simp add: py_isspace_space)
    then show ?thesis using False sub_ws_app [OF w] by (simp add: py_join_Cons)
  qed
qed


lemma set_py_strip: "set (py_strip s) \<subseteq> set s"
proof
  fix c assume "c \<in> set (py_strip s)"
  then have "c \<in> set (dropWhile py_isspace (rev (dropWhile py_isspace s)))"
    by (simp add: py_strip_def)
  then have "c \<in> set (rev (dropWhile py_isspace s))" by (rule set_dropWhileD)
  then have "c \<in> set (dropWhile py_isspace s)" by simp
  then show "c \<in> set s" by (rule set_dropWhileD)
qed

lemma set_sub_ws: "set (sub_ws s) \<subseteq> set s \<union> {CHR '' ''}"
proof (induction s rule: sub_ws.induct)
  case 1
  then show ?case by simp
next
  case (2 c cs)
  then show ?case using set_dropWhileD [of _ py_isspace cs] by auto
qed

lemma reorder_comma_id: "CHR '','' \<notin> set s \<Longrightarrow> reorder_comma s = s"
  by (simp add: reorder_comma_def)

lemma no_comma_remove_punct: "CHR '','' \<notin> set (remove_punct s)"
  by (simp add: remove_punct_def)

lemma first_pass_words_clean:
  assumes "w \<in> set (py_split (reorder_comma (remove_punct (sub_ws (py_strip (py_lower name))))))"
  shows "clean_word w"
proof -
  let ?t = "sub_ws (py_strip (py_lower name))"
  from assms have w: "w \<in> set (py_split (remove_punct ?t))"
    by (simp add: reorder_comma_id no_comma_remove_punct)
  then have ne: "w \<noteq> []" and sub: "set w \<subseteq> {c \<in> set (remove_punct ?t). \<not> py_isspace c}"
    using py_split_words by blast+
  have "\<not> py_isspace c \<and> c \<notin> set ''.,;:!?'' \<and> py_lower_char c = c" if "c \<in> set w" for c
  proof -
    from that sub have c: "c \<in> set (remove_punct ?t)" "\<not> py_isspace c" by auto
    then have np: "c \<notin> set ''.,;:!?''" and "c \<in> set ?t" by (auto simp: remove_punct_def)
    then have "c \<in> set (py_lower name) \<or> c = CHR '' ''"
      using set_sub_ws [of "py_strip (py_lower name)"] set_py_strip [of "py_lower name"] by auto
    then have "py_lower_char c = c"
      by (auto simp: py_lower_def py_lower_char_idem) (simp add: py_lower_char_def)
    with c np show ?thesis by simp
  qed
  with ne show ?thesis by (simp add: clean_word_def)
qed

lemma nickname_targets:
  "\<forall>(k, v)\<in>set nickname_list. clean_word v \<and> 1 < length v \<and> map_of nickname_list v = None"
  by code_simp

lemma nickname_final:
  assumes "clean_word w" "1 < length w"
  shows "final_word (nickname w)"
proof (cases "map_of nickname_list w")
  case None
  then show ?thesis using assms by (simp add: final_word_def nickname_def)
next
  case (Some v)
  then have "(w, v) \<in> set nickname_list" by (rule map_of_SomeD)
  then have "clean_word v \<and> 1 < length v \<and> map_of nickname_list v = None"
    using nickname_targets by blast
  then show ?thesis using Some by (simp add: final_word_def nickname_def)
qed

lemma set_pop_prefixes: "set (pop_prefixes ws) \<subseteq> set ws"
  unfolding pop_prefixes_def by (auto dest: set_dropWhileD)

lemma set_pop_suffixes: "set (pop_suffixes ws) \<subseteq> set ws"
  unfolding pop_suffixes_def by (auto dest: set_dropWhileD)

lemma normalize_name_words:
  "\<exists>ws. (\<forall>w\<in>set ws. final_word w) \<and> normalize_name x = py_join '' '' ws"
proof (cases "x = [] \<or> py_strip x = []")
  case True
  then have "normalize_name x = py_join '' '' []" by (simp add: normalize_name_def)
  then show ?thesis by (intro exI [of _ "[]"]) simp
next
  case False
  let ?ws0 = "py_split (reorder_comma (remove_punct (sub_ws (py_strip (py_lower x)))))"
  let ?ws1 = "filter (\<lambda>word. 1 < length word) (pop_suffixes (pop_prefixes ?ws0))"
  have eq: "normalize_name x = py_join '' '' (map nickname ?ws1)"
    using False by (simp add: normalize_name_def Let_def)
  have "clean_word w \<and> 1 < length w" if "w \<in> set ?ws1" for w
  proof -
    from that have "w \<in> set ?ws0" "1 < length w"
      using set_pop_suffixes set_pop_prefixes by fastforce+
    then show ?thesis using first_pass_words_clean by blast
  qed
  then have "\<forall>w\<in>set (map nickname ?ws1). final_word w"
    using nickname_final by auto
  with eq show ?thesis by blast
qed

lemma normalize_name_join:
  assumes "\<forall>w\<in>set ws. final_word w"
  shows "normalize_name (py_join '' '' ws) = py_join '' '' (pop_suffixes (pop_prefixes ws))"
proof (cases "ws = []")
  case True
  then show ?thesis by (simp add: normalize_name_def pop_prefixes_def pop_suffixes_def)
next
  case False
  from assms have cl: "\<forall>w\<in>set ws. clean_word w" by (simp add: final_word_def)
  then have ne: "py_join '' '' ws \<noteq> []"
    using False by (intro py_join_nonempty) (auto simp: clean_word_def)
  let ?p = "pop_suffixes (pop_prefixes ws)"
  have sub: "set ?p \<subseteq> set ws" using set_pop_suffixes set_pop_prefixes by fastforce
  have "filter (\<lambda>word. 1 < length word) ?p = ?p"
    using sub assms by (intro filter_True) (auto simp: final_word_def)
  moreover have "map nickname ?p = ?p"
    using sub assms by (intro map_idI) (auto simp: final_word_def)
  ultimately show ?thesis
    using ne cl
    by (simp add: normalize_name_def Let_def py_lower_join py_strip_join sub_ws_join
        remove_punct_join reorder_comma_id no_comma_join py_split_join)
qed

lemma pop_prefixes_pop_suffixes:
  "pop_prefixes (pop_suffixes (pop_prefixes ws)) = pop_suffixes (pop_prefixes ws)"
proof -
  let ?zs = "pop_prefixes ws"
  show ?thesis
  proof (cases "pop_suffixes ?zs = []")
    case True
    then show ?thesis by (simp add: pop_prefixes_def)
  next
    case False
    obtain n where n: "pop_suffixes ?zs = take n ?zs"
      unfolding pop_suffixes_def
      by (metis dropWhile_eq_drop rev_drop rev_rev_ident)
    with False have "?zs \<noteq> []" "hd (pop_suffixes ?zs) = hd ?zs"
      by (auto simp: hd_take)
    then have "hd (pop_suffixes ?zs) \<notin> set prefixes"
      using hd_dropWhile [of "\<lambda>w. w \<in> set prefixes" ws] by (simp add: pop_prefixes_def)
    with False show ?thesis by (simp add: pop_prefixes_def [of "pop_suffixes ?zs"] dropWhile_hd_id)
  qed
qed

lemma pop_suffixes_idem: "pop_suffixes (pop_suffixes ws) = pop_suffixes ws"
  by (simp add: pop_suffixes_def)

lemma pops_idem:
  "pop_suffixes (pop_prefixes (pop_suffixes (pop_prefixes ws))) = pop_suffixes (pop_prefixes ws)"
  by (simp add: pop_prefixes_pop_suffixes pop_suffixes_idem)

section \<open>The comma form of a name\<close>

text \<open>
  C2. \<open>normalize_name\<close> is documented to turn "KLAPPA, GALE E" into "gale klappa". The
  punctuation step removes every comma before the comma step looks for one, so the
  reordering never happens: the part before the comma stays first.
\<close>

theorem normalize_name_comma_not_reordered:
  "normalize_name ''Klappa, Gale'' = ''klappa gale'' \<and>
   normalize_name ''KLAPPA, GALE E'' = ''klappa gale''"
  by code_simp

section \<open>Repeated normalization\<close>

text \<open>
  C8 (as amended). Normalizing twice gives the same as normalizing once whenever the
  normalized name neither starts with a prefix word nor ends with a suffix word (popping
  prefixes and suffixes from its words changes nothing); and for every input the second
  application already reaches a fixed point: a third application changes nothing.
\<close>

theorem normalize_name_stable:
  "(pop_suffixes (pop_prefixes (py_split (normalize_name x))) = py_split (normalize_name x)
      \<longrightarrow> normalize_name (normalize_name x) = normalize_name x) \<and>
   normalize_name (normalize_name (normalize_name x)) = normalize_name (normalize_name x)"
proof -
  obtain ws where ws: "\<forall>w\<in>set ws. final_word w" and nx: "normalize_name x = py_join '' '' ws"
    using normalize_name_words by blast
  let ?p = "pop_suffixes (pop_prefixes ws)"
  have cl: "\<forall>w\<in>set ws. clean_word w" using ws by (simp add: final_word_def)
  have split: "py_split (normalize_name x) = ws" using nx cl by (simp add: py_split_join)
  have nnx: "normalize_name (normalize_name x) = py_join '' '' ?p"
    using nx ws by (simp add: normalize_name_join)
  have "\<forall>w\<in>set ?p. final_word w"
    using ws set_pop_suffixes set_pop_prefixes by fastforce
  then have "normalize_name (py_join '' '' ?p) = py_join '' '' ?p"
    by (simp add: normalize_name_join pops_idem)
  with nnx split nx show ?thesis by simp
qed

text \<open>
  C8 as stated fails: in "Smith John Jr E" the suffix "jr" is protected by the initial
  "e" during the first pass (suffixes are popped before single letters are dropped), and
  is popped by the second pass.
\<close>

theorem normalize_name_not_idempotent:
  "normalize_name (normalize_name ''Smith John Jr E'') \<noteq> normalize_name ''Smith John Jr E''"
  by code_simp

theorem normalize_name_stable_witness:
  "pop_suffixes (pop_prefixes (py_split (normalize_name ''Dr. William J. Smith III'')))
     = py_split (normalize_name ''Dr. William J. Smith III'') \<and>
   normalize_name (normalize_name ''Dr. William J. Smith III'') = ''william smith'' \<and>
   normalize_name ''Dr. William J. Smith III'' = ''william smith''"
proof -
  have h: "pop_suffixes (pop_prefixes (py_split (normalize_name ''Dr. William J. Smith III'')))
     = py_split (normalize_name ''Dr. William J. Smith III'')" by code_simp
  have v: "normalize_name ''Dr. William J. Smith III'' = ''william smith''" by code_simp
  from normalize_name_stable [of "''Dr. William J. Smith III''"] h v
  show ?thesis by simp
qed

section \<open>difflib.SequenceMatcher and the similarity score\<close>

text \<open>
  \<open>calculate_similarity\<close> calls \<open>SequenceMatcher(None, norm1, norm2).ratio()\<close> of the
  standard library. With \<open>isjunk = None\<close> no element is junk; with \<open>autojunk\<close> on, an
  element of a \<open>b\<close> of 200 or more elements that occurs more than \<open>len(b) // 100 + 1\<close>
  times is "popular" and left out of the index \<open>b2j\<close>. Indices are natural numbers;
  where Python computes \<open>i - k + 1\<close> with \<open>k \<le> i + 1\<close> the model writes \<open>i + 1 - k\<close>.
\<close>

definition b2j :: "string \<Rightarrow> char \<Rightarrow> nat list" where
  "b2j b x =
     (let idxs = filter (\<lambda>j. b ! j = x) [0..<length b] in
      if 200 \<le> length b \<and> length b div 100 + 1 < length idxs then [] else idxs)"

text \<open>The two nested loops of \<open>find_longest_match\<close>: for every \<open>i\<close> in
  \<open>range(alo, ahi)\<close>, for every \<open>j\<close> in \<open>b2j[a[i]]\<close> (\<open>continue\<close> below \<open>blo\<close>,
  \<open>break\<close> from \<open>bhi\<close> on). \<open>j2len.get(j - 1, 0)\<close> is 0 for \<open>j = 0\<close>.\<close>

fun inner_loop ::
  "nat \<Rightarrow> nat \<Rightarrow> nat \<Rightarrow> (nat \<rightharpoonup> nat) \<Rightarrow> nat list \<Rightarrow> (nat \<rightharpoonup> nat) \<Rightarrow> nat \<times> nat \<times> nat
     \<Rightarrow> (nat \<rightharpoonup> nat) \<times> (nat \<times> nat \<times> nat)" where
  "inner_loop i blo bhi j2len [] newj2len best = (newj2len, best)"
| "inner_loop i blo bhi j2len (j # js) newj2len (besti, bestj, bestsize) =
     (if j < blo then inner_loop i blo bhi j2len js newj2len (besti, bestj, bestsize)
      else if bhi \<le> j then (newj2len, (besti, bestj, bestsize))
      else
        (let k = (if j = 0 then 0 else (case j2len (j - 1) of Some l \<Rightarrow> l | None \<Rightarrow> 0)) + 1;
             newj2len = newj2len(j \<mapsto> k)
         in if bestsize < k
            then inner_loop i blo bhi j2len js newj2len (i + 1 - k, j + 1 - k, k)
            else inner_loop i blo bhi j2len js newj2len (besti, bestj, bestsize)))"

fun outer_loop ::
  "string \<Rightarrow> string \<Rightarrow> nat \<Rightarrow> nat \<Rightarrow> nat list \<Rightarrow> (nat \<rightharpoonup> nat) \<Rightarrow> nat \<times> nat \<times> nat
     \<Rightarrow> nat \<times> nat \<times> nat" where
  "outer_loop a b blo bhi [] j2len best = best"
| "outer_loop a b blo bhi (i # is) j2len best =
     (case inner_loop i blo bhi j2len (b2j b (a ! i)) Map.empty best of
        (newj2len, best') \<Rightarrow> outer_loop a b blo bhi is newj2len best')"

text \<open>The two loops that extend the best match by non-junk elements at each end. The
  two loops after them extend by junk elements only, and there is no junk.\<close>

function extend_left :: "string \<Rightarrow> string \<Rightarrow> nat \<Rightarrow> nat \<Rightarrow> nat \<times> nat \<times> nat \<Rightarrow> nat \<times> nat \<times> nat" where
  "extend_left a b alo blo (besti, bestj, bestsize) =
     (if alo < besti \<and> blo < bestj \<and> a ! (besti - 1) = b ! (bestj - 1)
      then extend_left a b alo blo (besti - 1, bestj - 1, bestsize + 1)
      else (besti, bestj, bestsize))"
  by pat_completeness auto
termination
  by (relation "measure (\<lambda>(a, b, alo, blo, besti, bestj, bestsize). besti)") auto

function extend_right :: "string \<Rightarrow> string \<Rightarrow> nat \<Rightarrow> nat \<Rightarrow> nat \<times> nat \<times> nat \<Rightarrow> nat \<times> nat \<times> nat" where
  "extend_right a b ahi bhi (besti, bestj, bestsize) =
     (if besti + bestsize < ahi \<and> bestj + bestsize < bhi \<and>
         a ! (besti + bestsize) = b ! (bestj + bestsize)
      then extend_right a b ahi bhi (besti, bestj, bestsize + 1)
      else (besti, bestj, bestsize))"
  by pat_completeness auto
termination
  by (relation "measure (\<lambda>(a, b, ahi, bhi, besti, bestj, bestsize). ahi - (besti + bestsize))") auto

declare extend_left.simps [simp del] extend_right.simps [simp del]

definition find_longest_match ::
  "string \<Rightarrow> string \<Rightarrow> nat \<Rightarrow> nat \<Rightarrow> nat \<Rightarrow> nat \<Rightarrow> nat \<times> nat \<times> nat" where
  "find_longest_match a b alo ahi blo bhi =
     extend_right a b ahi bhi
       (extend_left a b alo blo
          (outer_loop a b blo bhi [alo..<ahi] Map.empty (alo, blo, 0)))"

text \<open>What every intermediate result of \<open>find_longest_match\<close> satisfies: an empty match
  sits at \<open>(alo, blo)\<close>, a non-empty one lies inside both ranges.\<close>

definition good_best :: "nat \<Rightarrow> nat \<Rightarrow> nat \<Rightarrow> nat \<Rightarrow> nat \<times> nat \<times> nat \<Rightarrow> bool" where
  "good_best alo ahi blo bhi best =
     (case best of (bi, bj, bs) \<Rightarrow>
        if bs = 0 then bi = alo \<and> bj = blo
        else alo \<le> bi \<and> blo \<le> bj \<and> bi + bs \<le> ahi \<and> bj + bs \<le> bhi)"

definition row_ok :: "nat \<Rightarrow> nat \<Rightarrow> (nat \<rightharpoonup> nat) \<Rightarrow> bool" where
  "row_ok r blo m = (\<forall>j l. m j = Some l \<longrightarrow> l \<le> r \<and> l \<le> j + 1 - blo)"

lemma inner_loop_inv:
  assumes "row_ok (i - alo) blo j2len" "alo \<le> i" "i < ahi"
    and "row_ok (i + 1 - alo) blo newj2len" "good_best alo ahi blo bhi best"
  shows "row_ok (i + 1 - alo) blo (fst (inner_loop i blo bhi j2len js newj2len best)) \<and>
         good_best alo ahi blo bhi (snd (inner_loop i blo bhi j2len js newj2len best))"
  using assms(4,5)
proof (induction js arbitrary: newj2len best)
  case Nil
  then show ?case by simp
next
  case (Cons j js)
  obtain bi bj bs where best: "best = (bi, bj, bs)" by (cases best)
  show ?case
  proof (cases "j < blo")
    case True
    then show ?thesis using Cons best by simp
  next
    case lo: False
    show ?thesis
    proof (cases "bhi \<le> j")
      case True
      then show ?thesis using Cons.prems lo best by simp
    next
      case hi: False
      define k where "k = (if j = 0 then 0 else (case j2len (j - 1) of Some l \<Rightarrow> l | None \<Rightarrow> 0)) + 1"
      have kr: "k \<le> i + 1 - alo" and kj: "k \<le> j + 1 - blo"
        using assms(1,2) lo unfolding k_def row_ok_def
        by (auto split: option.splits) (fastforce)+
      have k0: "0 < k" by (simp add: k_def)
      have row: "row_ok (i + 1 - alo) blo (newj2len(j \<mapsto> k))"
        using Cons.prems(1) kr kj by (auto simp: row_ok_def)
      show ?thesis
      proof (cases "bs < k")
        case True
        have gb: "good_best alo ahi blo bhi (i + 1 - k, j + 1 - k, k)"
          using kr kj k0 assms(2,3) lo hi by (auto simp: good_best_def)
        have step: "inner_loop i blo bhi j2len (j # js) newj2len best =
            inner_loop i blo bhi j2len js (newj2len(j \<mapsto> k)) (i + 1 - k, j + 1 - k, k)"
          using lo hi True best unfolding k_def by (simp add: Let_def)
        show ?thesis unfolding step by (rule Cons.IH [OF row gb])
      next
        case False
        have step: "inner_loop i blo bhi j2len (j # js) newj2len best =
            inner_loop i blo bhi j2len js (newj2len(j \<mapsto> k)) best"
          using lo hi False best unfolding k_def by (simp add: Let_def)
        show ?thesis unfolding step by (rule Cons.IH [OF row Cons.prems(2)])
      qed
    qed
  qed
qed

lemma outer_loop_inv:
  assumes "row_ok (i - alo) blo j2len" "alo \<le> i" "good_best alo ahi blo bhi best"
  shows "good_best alo ahi blo bhi (outer_loop a b blo bhi [i..<ahi] j2len best)"
  using assms
proof (induction "ahi - i" arbitrary: i j2len best)
  case 0
  then show ?case by simp
next
  case (Suc n)
  then have lt: "i < ahi" by simp
  obtain m' best' where r: "inner_loop i blo bhi j2len (b2j b (a ! i)) Map.empty best = (m', best')"
    by (cases "inner_loop i blo bhi j2len (b2j b (a ! i)) Map.empty best")
  have "row_ok (i + 1 - alo) blo Map.empty" by (simp add: row_ok_def)
  from inner_loop_inv [OF Suc.prems(1,2) lt this Suc.prems(3), of "b2j b (a ! i)"] r
  have m': "row_ok (Suc i - alo) blo m'" and b': "good_best alo ahi blo bhi best'" by simp_all
  have "good_best alo ahi blo bhi (outer_loop a b blo bhi [Suc i..<ahi] m' best')"
    using Suc.hyps(2) Suc.prems(2) by (intro Suc.hyps(1) m' b') simp_all
  then show ?case using lt r by (simp add: upt_conv_Cons)
qed

lemma extend_left_inv:
  "good_best alo ahi blo bhi best \<Longrightarrow> good_best alo ahi blo bhi (extend_left a b alo blo best)"
proof (induction a b alo blo best rule: extend_left.induct)
  case (1 a b alo blo besti bestj bestsize)
  show ?case
  proof (cases "alo < besti \<and> blo < bestj \<and> a ! (besti - 1) = b ! (bestj - 1)")
    case True
    with "1.prems" have "good_best alo ahi blo bhi (besti - 1, bestj - 1, bestsize + 1)"
      by (auto simp: good_best_def split: if_splits)
    with True "1.IH" show ?thesis by (simp add: extend_left.simps [of a b alo blo besti])
  next
    case False
    with "1.prems" show ?thesis by (auto simp: extend_left.simps [of a b alo blo besti])
  qed
qed

lemma extend_right_inv:
  "good_best alo ahi blo bhi best \<Longrightarrow> good_best alo ahi blo bhi (extend_right a b ahi bhi best)"
proof (induction a b ahi bhi best rule: extend_right.induct)
  case (1 a b ahi bhi besti bestj bestsize)
  show ?case
  proof (cases "besti + bestsize < ahi \<and> bestj + bestsize < bhi \<and>
         a ! (besti + bestsize) = b ! (bestj + bestsize)")
    case True
    with "1.prems" have "good_best alo ahi blo bhi (besti, bestj, bestsize + 1)"
      by (auto simp: good_best_def split: if_splits)
    with True "1.IH" show ?thesis by (simp add: extend_right.simps [of a b ahi bhi besti])
  next
    case False
    with "1.prems" show ?thesis by (auto simp: extend_right.simps [of a b ahi bhi besti])
  qed
qed

lemma find_longest_match_good:
  "good_best alo ahi blo bhi (find_longest_match a b alo ahi blo bhi)"
  unfolding find_longest_match_def
  by (intro extend_right_inv extend_left_inv outer_loop_inv)
     (simp_all add: row_ok_def good_best_def)

lemma find_longest_match_bounds:
  assumes "find_longest_match a b alo ahi blo bhi = (i, j, k)" "k \<noteq> 0"
  shows "alo \<le> i \<and> i + k \<le> ahi \<and> blo \<le> j \<and> j + k \<le> bhi"
  using find_longest_match_good [of alo ahi blo bhi a b] assms by (simp add: good_best_def)

text \<open>The loop of \<open>get_matching_blocks\<close>. \<open>queue\<close> is used as a stack: its head is the
  element that \<open>queue.pop()\<close> returns.\<close>

function match_loop ::
  "string \<Rightarrow> string \<Rightarrow> (nat \<times> nat \<times> nat \<times> nat) list \<Rightarrow> (nat \<times> nat \<times> nat) list
     \<Rightarrow> (nat \<times> nat \<times> nat) list" where
  "match_loop a b [] matching_blocks = matching_blocks"
| "match_loop a b ((alo, ahi, blo, bhi) # queue) matching_blocks =
     (case find_longest_match a b alo ahi blo bhi of
        (i, j, k) \<Rightarrow>
          if k = 0 then match_loop a b queue matching_blocks
          else match_loop a b
                 ((if i + k < ahi \<and> j + k < bhi then [(i + k, ahi, j + k, bhi)] else []) @
                  (if alo < i \<and> blo < j then [(alo, i, blo, j)] else []) @ queue)
                 (matching_blocks @ [(i, j, k)]))"
  by pat_completeness auto
termination
proof (relation "measure (\<lambda>(a, b, queue, blocks).
          sum_list (map (\<lambda>(alo, ahi, blo, bhi). 2 * (ahi - alo) + 1) queue))", goal_cases)
  case 1
  show ?case by simp
next
  case 2
  then show ?case by simp
next
  case prems: 3
  from prems(1,2) [symmetric] prems(3) show ?case
    by (auto dest!: find_longest_match_bounds)
qed

declare match_loop.simps [simp del]

text \<open>The collapsing of adjacent blocks, with \<open>(i1, j1, k1)\<close> the block to compare
  against.\<close>

fun collapse :: "nat \<times> nat \<times> nat \<Rightarrow> (nat \<times> nat \<times> nat) list \<Rightarrow> (nat \<times> nat \<times> nat) list" where
  "collapse (i1, j1, k1) [] = (if k1 \<noteq> 0 then [(i1, j1, k1)] else [])"
| "collapse (i1, j1, k1) ((i2, j2, k2) # rest) =
     (if i1 + k1 = i2 \<and> j1 + k1 = j2 then collapse (i1, j1, k1 + k2) rest
      else (if k1 \<noteq> 0 then [(i1, j1, k1)] else []) @ collapse (i2, j2, k2) rest)"

definition get_matching_blocks :: "string \<Rightarrow> string \<Rightarrow> (nat \<times> nat \<times> nat) list" where
  "get_matching_blocks a b =
     (let la = length a; lb = length b;
          matching_blocks = sort (match_loop a b [(0, la, 0, lb)] [])
      in collapse (0, 0, 0) matching_blocks @ [(la, lb, 0)])"

text \<open>\<open>SequenceMatcher(None, a, b).ratio()\<close>, with \<open>_calculate_ratio\<close>.\<close>

definition ratio :: "string \<Rightarrow> string \<Rightarrow> rat" where
  "ratio a b =
     (let matches = sum_list (map (\<lambda>(i, j, k). k) (get_matching_blocks a b));
          len = length a + length b
      in if len \<noteq> 0 then 2 * of_nat matches / of_nat len else 1)"

text \<open>
  Scores are Python floats in the source and rationals here: each score is 0, 1 or a
  quotient of two small natural numbers, and the comparisons with the literal 0.8 come
  out the same for the quotient and for its nearest float.
\<close>

definition calculate_similarity :: "string \<Rightarrow> string \<Rightarrow> rat" where
  "calculate_similarity name1 name2 =
     (if name1 = [] \<or> name2 = [] then 0
      else
        (let norm1 = normalize_name name1; norm2 = normalize_name name2 in
         if norm1 = norm2 then 1
         else
           (let words1 = set (py_split norm1); words2 = set (py_split norm2);
                intersection = card (words1 \<inter> words2);
                union = card (words1 \<union> words2);
                jaccard = (if 0 < union then of_nat intersection / of_nat union else 0)
            in if words1 \<noteq> {} \<and> words2 \<noteq> {} \<and> 2 \<le> intersection then jaccard
               else
                 (let sequence_similarity = ratio norm1 norm2
                  in if 4 / 5 < sequence_similarity then sequence_similarity else 0))))"

definition is_name_match :: "string \<Rightarrow> string \<Rightarrow> rat \<Rightarrow> bool" where
  "is_name_match name1 name2 threshold = (threshold \<le> calculate_similarity name1 name2)"

text \<open>The number of matched elements, and the room the ranges of a queue leave for them.\<close>

abbreviation sizes :: "(nat \<times> nat \<times> nat) list \<Rightarrow> nat" where
  "sizes blocks \<equiv> sum_list (map (\<lambda>(i, j, k). k) blocks)"

abbreviation room :: "(nat \<times> nat \<times> nat \<times> nat) list \<Rightarrow> nat" where
  "room queue \<equiv> sum_list (map (\<lambda>(alo, ahi, blo, bhi). min (ahi - alo) (bhi - blo)) queue)"

lemma match_loop_sizes:
  "sizes (match_loop a b queue blocks) \<le> sizes blocks + room queue"
proof (induction a b queue blocks rule: match_loop.induct)
  case (1 a b matching_blocks)
  then show ?case by (simp add: match_loop.simps)
next
  case (2 a b alo ahi blo bhi queue matching_blocks)
  obtain i j k where f: "find_longest_match a b alo ahi blo bhi = (i, j, k)"
    by (cases "find_longest_match a b alo ahi blo bhi")
  show ?case
  proof (cases "k = 0")
    case True
    have step: "match_loop a b ((alo, ahi, blo, bhi) # queue) matching_blocks =
        match_loop a b queue matching_blocks"
      using f True by (simp add: match_loop.simps(2) [of a b alo ahi blo bhi queue matching_blocks])
    from 2(1) [OF f [symmetric] refl True] show ?thesis unfolding step by simp
  next
    case False
    from find_longest_match_bounds [OF f False]
    have bnd: "alo \<le> i" "i + k \<le> ahi" "blo \<le> j" "j + k \<le> bhi" by simp_all
    define q where "q = (if i + k < ahi \<and> j + k < bhi then [(i + k, ahi, j + k, bhi)] else []) @
              (if alo < i \<and> blo < j then [(alo, i, blo, j)] else []) @ queue"
    have ih: "sizes (match_loop a b q (matching_blocks @ [(i, j, k)]))
            \<le> sizes (matching_blocks @ [(i, j, k)]) + room q"
      unfolding q_def using 2(2) [OF f [symmetric] refl False] .
    have rq: "k + room q \<le> min (ahi - alo) (bhi - blo) + room queue"
      using bnd by (auto simp: q_def)
    have step: "match_loop a b ((alo, ahi, blo, bhi) # queue) matching_blocks =
        match_loop a b q (matching_blocks @ [(i, j, k)])"
      unfolding q_def using f False
      by (simp add: match_loop.simps(2) [of a b alo ahi blo bhi queue matching_blocks])
    show ?thesis unfolding step using ih rq by simp
  qed
qed

lemma sizes_insort: "sizes (insort x xs) = sizes [x] + sizes xs"
  by (induction xs) auto

lemma sizes_sort: "sizes (sort xs) = sizes xs"
  by (induction xs) (auto simp: sizes_insort)

lemma sizes_collapse: "sizes (collapse (i1, j1, k1) xs) = k1 + sizes xs"
  by (induction "(i1, j1, k1)" xs arbitrary: i1 j1 k1 rule: collapse.induct) auto

lemma matches_le:
  "sizes (get_matching_blocks a b) \<le> min (length a) (length b)"
  using match_loop_sizes [of a b "[(0, length a, 0, length b)]" "[]"]
  by (simp add: get_matching_blocks_def Let_def sizes_collapse sizes_sort)

lemma ratio_range: "0 \<le> ratio a b \<and> ratio a b \<le> 1"
proof -
  let ?m = "sizes (get_matching_blocks a b)"
  have "2 * ?m \<le> length a + length b" using matches_le [of a b] by simp
  then have "2 * (of_nat ?m :: rat) \<le> of_nat (length a + length b)"
    by (metis of_nat_le_iff of_nat_mult of_nat_numeral)
  then show ?thesis
    by (auto simp: ratio_def Let_def divide_le_eq_1 simp del: of_nat_add)
qed

lemma quotient_range:
  "m \<le> n \<Longrightarrow> 0 \<le> (of_nat m :: rat) / of_nat n \<and> (of_nat m :: rat) / of_nat n \<le> 1"
  by (cases "n = 0") (simp_all add: divide_le_eq_1)

lemma jaccard_range:
  "0 \<le> (of_nat (card (set xs \<inter> set ys)) :: rat) / of_nat (card (set xs \<union> set ys)) \<and>
   (of_nat (card (set xs \<inter> set ys)) :: rat) / of_nat (card (set xs \<union> set ys)) \<le> 1"
  by (intro quotient_range card_mono) auto

section \<open>The worked examples of is\_name\_match\<close>

text \<open>
  C7. With the default threshold 0.8, "Gale Klappa" matches "KLAPPA GALE E" (both word
  sets are {gale, klappa}: Jaccard similarity 1) and does not match "John Smith" (no
  common word, and a sequence ratio of 2/21).
\<close>

theorem is_name_match_examples:
  "is_name_match ''Gale Klappa'' ''KLAPPA GALE E'' (4 / 5) \<and>
   \<not> is_name_match ''Gale Klappa'' ''John Smith'' (4 / 5)"
  by code_simp

section \<open>The range of the similarity score\<close>

text \<open>
  C10 (as amended). \<open>calculate_similarity\<close> returns a value between 0 and 1; it returns 1
  whenever both inputs are non-empty and their normalized names are equal, and 0 whenever
  an input is empty.
\<close>

theorem calculate_similarity_range:
  "0 \<le> calculate_similarity name1 name2 \<and> calculate_similarity name1 name2 \<le> 1 \<and>
   (name1 \<noteq> [] \<and> name2 \<noteq> [] \<and> normalize_name name1 = normalize_name name2
      \<longrightarrow> calculate_similarity name1 name2 = 1) \<and>
   (name1 = [] \<or> name2 = [] \<longrightarrow> calculate_similarity name1 name2 = 0)"
  using ratio_range [of "normalize_name name1" "normalize_name name2"]
    jaccard_range [of "py_split (normalize_name name1)" "py_split (normalize_name name2)"]
  by (simp add: calculate_similarity_def Let_def)

text \<open>
  C10 as stated asks for 1 whenever the normalized names are equal and for 0 whenever
  an input is empty. For two empty inputs the normalized names are equal, and the guard
  on empty inputs comes first: the score is 0.
\<close>

theorem calculate_similarity_empty_inputs:
  "normalize_name [] = normalize_name [] \<and> calculate_similarity [] [] \<noteq> 1"
  by (simp add: calculate_similarity_def)

theorem calculate_similarity_range_witness:
  "''Gale Klappa'' \<noteq> [] \<and> ''Mr. Gale E. Klappa Jr.'' \<noteq> [] \<and>
   normalize_name ''Gale Klappa'' = normalize_name ''Mr. Gale E. Klappa Jr.'' \<and>
   calculate_similarity ''Gale Klappa'' ''Mr. Gale E. Klappa Jr.'' = 1 \<and>
   calculate_similarity [] ''Gale Klappa'' = 0"
proof -
  have h: "normalize_name ''Gale Klappa'' = normalize_name ''Mr. Gale E. Klappa Jr.''"
    by code_simp
  from calculate_similarity_range [of "''Gale Klappa''" "''Mr. Gale E. Klappa Jr.''"]
    calculate_similarity_range [of "[]" "''Gale Klappa''"] h
  show ?thesis by simp
qed

section \<open>Python values, exceptions and dates\<close>

text \<open>An exception that a Python function raises is the \<open>Inl\<close> of its result.\<close>

datatype exn = ValueError | TypeError | AttributeError | KeyError | OverflowError | ParseError |
  UnicodeEncodeError | OtherError

text \<open>The values a dict built from JSON-like data holds, as far as the code below looks at
  them: \<open>None\<close>, a string, a number.\<close>

datatype pyval = PyNone | PyStr string | PyNum rat

text \<open>A \<open>datetime.date\<close> is its proleptic Gregorian ordinal (\<open>date.toordinal()\<close>), so
  that \<open>(d1 - d2).days\<close> is the difference of two integers.\<close>

type_synonym pydate = int

text \<open>\<open>datetime.strptime(s, fmt).date()\<close> of the standard library is a parameter of the
  model: \<open>None\<close> is its \<open>ValueError\<close>.\<close>

type_synonym strptime = "string \<Rightarrow> string \<Rightarrow> pydate option"

section \<open>utils.py: parse\_date\<close>

definition date_formats :: "string list" where
  "date_formats = [''%Y-%m-%d'', ''%Y%m%d'', ''%m/%d/%Y'', ''%m-%d-%Y'', ''%d-%b-%Y'',
     ''%Y-%m-%dT%H:%M:%S'', ''%Y-%m-%dT%H:%M:%S%z'']"

fun try_formats :: "strptime \<Rightarrow> string \<Rightarrow> string list \<Rightarrow> pydate option" where
  "try_formats strptime s [] = None"
| "try_formats strptime s (fmt # fmts) =
     (case strptime s fmt of Some parsed \<Rightarrow> Some parsed | None \<Rightarrow> try_formats strptime s fmts)"

definition parse_date :: "strptime \<Rightarrow> string \<Rightarrow> pydate option" where
  "parse_date strptime date_str =
     (if date_str = [] then None else try_formats strptime (py_strip date_str) date_formats)"

section \<open>cross\_company\_search.py: determine\_position\_status\<close>

text \<open>\<open>t.get('transaction_date')\<close> as a condition, and \<open>parse_date\<close> applied to what
  \<open>t.get('transaction_date', '')\<close> returns: a number that is not zero has no
  \<open>strip\<close>.\<close>

definition truthy :: "pyval option \<Rightarrow> bool" where
  "truthy v = (case v of None \<Rightarrow> False | Some PyNone \<Rightarrow> False
               | Some (PyStr s) \<Rightarrow> s \<noteq> [] | Some (PyNum n) \<Rightarrow> n \<noteq> 0)"

definition parse_date_val :: "strptime \<Rightarrow> pyval option \<Rightarrow> exn + pydate option" where
  "parse_date_val strptime v =
     (case v of Some (PyStr s) \<Rightarrow> Inr (parse_date strptime s)
      | Some (PyNum n) \<Rightarrow> (if n = 0 then Inr None else Inl AttributeError)
      | _ \<Rightarrow> Inr None)"

type_synonym pydict = "string \<rightharpoonup> pyval"

text \<open>
  \<open>max(parse_date(...) for t in transactions if t.get('transaction_date'))\<close>: the
  generator is consumed one element at a time; \<open>max\<close> of nothing raises
  \<open>ValueError\<close>, and comparing with a \<open>None\<close> that \<open>parse_date\<close> returned raises
  \<open>TypeError\<close>.
\<close>

fun max_loop :: "strptime \<Rightarrow> pydate option \<Rightarrow> pydict list \<Rightarrow> exn + pydate option" where
  "max_loop strptime maxval [] = Inr maxval"
| "max_loop strptime maxval (t # ts) =
     (if truthy (t ''transaction_date'') then
        (case parse_date_val strptime (t ''transaction_date'') of
           Inl e \<Rightarrow> Inl e
         | Inr item \<Rightarrow>
             (case (item, maxval) of
                (Some d, Some m) \<Rightarrow> max_loop strptime (if m < d then Some d else Some m) ts
              | _ \<Rightarrow> Inl TypeError))
      else max_loop strptime maxval ts)"

fun py_max_dates :: "strptime \<Rightarrow> pydict list \<Rightarrow> exn + pydate option" where
  "py_max_dates strptime [] = Inl ValueError"
| "py_max_dates strptime (t # ts) =
     (if truthy (t ''transaction_date'') then
        (case parse_date_val strptime (t ''transaction_date'') of
           Inl e \<Rightarrow> Inl e
         | Inr item \<Rightarrow> max_loop strptime item ts)
      else py_max_dates strptime ts)"

text \<open>The body of the \<open>try\<close> block: \<open>current_date - None\<close> raises \<open>TypeError\<close>.\<close>

definition status_of_days :: "strptime \<Rightarrow> pydict list \<Rightarrow> pydate \<Rightarrow> exn + string" where
  "status_of_days strptime transactions current_date =
     (case py_max_dates strptime transactions of
        Inl e \<Rightarrow> Inl e
      | Inr None \<Rightarrow> Inl TypeError
      | Inr (Some latest_transaction) \<Rightarrow>
          (let days_since_last = current_date - latest_transaction in
           if days_since_last \<le> 365 then Inr ''current''
           else if 730 \<le> days_since_last then Inr ''former''
           else Inr ''unknown''))"

definition determine_position_status :: "strptime \<Rightarrow> pydict list \<Rightarrow> pydate \<Rightarrow> string" where
  "determine_position_status strptime transactions current_date =
     (if transactions = [] then ''unknown''
      else (case status_of_days strptime transactions current_date of
              Inl e \<Rightarrow> ''unknown'' | Inr status \<Rightarrow> status))"

text \<open>The dates of the transactions that carry one, when every one of them parses.\<close>

fun transaction_dates :: "strptime \<Rightarrow> pydict list \<Rightarrow> pydate list option" where
  "transaction_dates strptime [] = Some []"
| "transaction_dates strptime (t # ts) =
     (if truthy (t ''transaction_date'') then
        (case parse_date_val strptime (t ''transaction_date'') of
           Inr (Some d) \<Rightarrow> map_option ((#) d) (transaction_dates strptime ts)
         | _ \<Rightarrow> None)
      else transaction_dates strptime ts)"

lemma max_loop_dates:
  "transaction_dates strptime ts = Some ds \<Longrightarrow>
   max_loop strptime (Some m) ts = Inr (Some (Max (set (m # ds))))"
proof (induction ts arbitrary: m ds)
  case Nil
  then show ?case by simp
next
  case (Cons t ts)
  show ?case
  proof (cases "truthy (t ''transaction_date'')")
    case False
    with Cons show ?thesis by simp
  next
    case True
    with Cons.prems obtain d ds' where d: "parse_date_val strptime (t ''transaction_date'') = Inr (Some d)"
      and ds': "transaction_dates strptime ts = Some ds'" and ds: "ds = d # ds'"
      by (auto split: sum.splits option.splits)
    have "Max (set ((if m < d then d else m) # ds')) = Max (set (m # d # ds'))"
      by (cases "set ds' = {}") (auto simp: max_def)
    with Cons.IH [OF ds', of "if m < d then d else m"] True d ds show ?thesis
      by (simp split: if_splits)
  qed
qed

lemma py_max_dates_dates:
  "transaction_dates strptime ts = Some ds \<Longrightarrow> ds \<noteq> [] \<Longrightarrow>
   py_max_dates strptime ts = Inr (Some (Max (set ds)))"
proof (induction ts arbitrary: ds)
  case Nil
  then show ?case by simp
next
  case (Cons t ts)
  show ?case
  proof (cases "truthy (t ''transaction_date'')")
    case False
    with Cons show ?thesis by simp
  next
    case True
    with Cons.prems obtain d ds' where d: "parse_date_val strptime (t ''transaction_date'') = Inr (Some d)"
      and ds': "transaction_dates strptime ts = Some ds'" and ds: "ds = d # ds'"
      by (auto split: sum.splits option.splits)
    from max_loop_dates [OF ds', of d] True d ds show ?thesis by simp
  qed
qed

lemma max_loop_undated:
  "transaction_dates strptime ts = None \<Longrightarrow> \<exists>e. max_loop strptime maxval ts = Inl e"
proof (induction ts arbitrary: maxval)
  case Nil
  then show ?case by simp
next
  case (Cons t ts)
  then show ?case
    by (cases "truthy (t ''transaction_date'')") (auto split: sum.splits option.splits)
qed

lemma max_loop_None:
  "max_loop strptime None ts = Inr None \<or> (\<exists>e. max_loop strptime None ts = Inl e)"
  by (induction ts) (auto split: sum.splits option.splits)

lemma py_max_dates_undated:
  "transaction_dates strptime ts = None \<or> transaction_dates strptime ts = Some [] \<Longrightarrow>
   py_max_dates strptime ts = Inr None \<or> (\<exists>e. py_max_dates strptime ts = Inl e)"
proof (induction ts)
  case Nil
  then show ?case by simp
next
  case (Cons t ts)
  show ?case
  proof (cases "truthy (t ''transaction_date'')")
    case False
    with Cons show ?thesis by simp
  next
    case True
    show ?thesis
    proof (cases "parse_date_val strptime (t ''transaction_date'')")
      case (Inl e)
      with True show ?thesis by simp
    next
      case (Inr item)
      show ?thesis
      proof (cases item)
        case None
        with True Inr max_loop_None [of strptime ts] show ?thesis by auto
      next
        case (Some d)
        with Cons.prems True Inr have "transaction_dates strptime ts = None"
          by (auto split: option.splits)
        from max_loop_undated [OF this, of "Some d"] True Inr Some show ?thesis by auto
      qed
    qed
  qed
qed

section \<open>Status classification\<close>

text \<open>
  C4. With no transactions the status is "unknown". When the transactions carry dates
  that parse, let \<open>d\<close> be the days from the most recent of them to the current date:
  the status is "current" for \<open>d \<le> 365\<close>, "former" for \<open>d \<ge> 730\<close> and "unknown" in
  between. (When no transaction carries a date, or a date does not parse, the exception
  is caught and the status is "unknown".)
\<close>

theorem determine_position_status_classifies:
  "(transactions = [] \<longrightarrow>
      determine_position_status strptime transactions current_date = ''unknown'') \<and>
   (\<forall>ds. transaction_dates strptime transactions = Some ds \<and> ds \<noteq> [] \<longrightarrow>
      (let d = current_date - Max (set ds) in
        (d \<le> 365 \<longrightarrow> determine_position_status strptime transactions current_date = ''current'') \<and>
        (730 \<le> d \<longrightarrow> determine_position_status strptime transactions current_date = ''former'') \<and>
        (365 < d \<and> d < 730 \<longrightarrow>
           determine_position_status strptime transactions current_date = ''unknown''))) \<and>
   (transaction_dates strptime transactions = None \<or>
    transaction_dates strptime transactions = Some [] \<longrightarrow>
      determine_position_status strptime transactions current_date = ''unknown'')"
proof (intro conjI allI impI)
  assume "transactions = []"
  then show "determine_position_status strptime transactions current_date = ''unknown''"
    by (simp add: determine_position_status_def)
next
  fix ds
  assume a: "transaction_dates strptime transactions = Some ds \<and> ds \<noteq> []"
  then have ne: "transactions \<noteq> []" by auto
  from a have "py_max_dates strptime transactions = Inr (Some (Max (set ds)))"
    by (simp add: py_max_dates_dates)
  with ne show "let d = current_date - Max (set ds) in
        (d \<le> 365 \<longrightarrow> determine_position_status strptime transactions current_date = ''current'') \<and>
        (730 \<le> d \<longrightarrow> determine_position_status strptime transactions current_date = ''former'') \<and>
        (365 < d \<and> d < 730 \<longrightarrow>
           determine_position_status strptime transactions current_date = ''unknown'')"
    by (simp add: determine_position_status_def status_of_days_def Let_def)
next
  assume "transaction_dates strptime transactions = None \<or>
    transaction_dates strptime transactions = Some []"
  from py_max_dates_undated [OF this]
  show "determine_position_status strptime transactions current_date = ''unknown''"
    by (auto simp: determine_position_status_def status_of_days_def)
qed

text \<open>A \<open>strptime\<close> to run the classifier with: it knows the format \<open>%Y-%m-%d\<close> on
  zero-padded input, and gives the proleptic Gregorian ordinal of the day, as
  \<open>date.toordinal()\<close> does.\<close>

definition digit_of :: "char \<Rightarrow> int option" where
  "digit_of c = (let n = (of_char c :: int) in if 48 \<le> n \<and> n \<le> 57 then Some (n - 48) else None)"

fun number_of :: "int \<Rightarrow> string \<Rightarrow> int option" where
  "number_of acc [] = Some acc"
| "number_of acc (c # cs) =
     (case digit_of c of None \<Rightarrow> None | Some d \<Rightarrow> number_of (10 * acc + d) cs)"

definition is_leap :: "int \<Rightarrow> bool" where
  "is_leap y = (y mod 4 = 0 \<and> (y mod 100 \<noteq> 0 \<or> y mod 400 = 0))"

definition days_in_month :: "int \<Rightarrow> int \<Rightarrow> int" where
  "days_in_month y m =
     (if m = 2 then (if is_leap y then 29 else 28)
      else if m \<in> set [4, 6, 9, 11] then 30 else 31)"

definition days_before_month :: "int \<Rightarrow> int \<Rightarrow> int" where
  "days_before_month y m =
     [0, 31, 59, 90, 120, 151, 181, 212, 243, 273, 304, 334] ! nat (m - 1) +
     (if 2 < m \<and> is_leap y then 1 else 0)"

definition date_ordinal :: "int \<Rightarrow> int \<Rightarrow> int \<Rightarrow> pydate" where
  "date_ordinal y m d =
     (y - 1) * 365 + (y - 1) div 4 - (y - 1) div 100 + (y - 1) div 400 +
     days_before_month y m + d"

definition strptime_iso :: strptime where
  "strptime_iso s fmt =
     (if fmt = ''%Y-%m-%d'' \<and> length s = 10 \<and> s ! 4 = CHR ''-'' \<and> s ! 7 = CHR ''-'' then
        (case (number_of 0 (take 4 s), number_of 0 (take 2 (drop 5 s)), number_of 0 (drop 8 s)) of
           (Some y, Some m, Some d) \<Rightarrow>
             if 1 \<le> y \<and> 1 \<le> m \<and> m \<le> 12 \<and> 1 \<le> d \<and> d \<le> days_in_month y m
             then Some (date_ordinal y m d) else None
         | _ \<Rightarrow> None)
      else None)"

definition dated :: "string \<Rightarrow> pydict" where
  "dated s = Map.empty(''transaction_date'' \<mapsto> PyStr s)"

text \<open>The examples of the specification: a last transaction 30 days, 800 days and 500
  days before 2024-06-30, and no transactions.\<close>

theorem determine_position_status_examples:
  "determine_position_status strptime_iso [] (date_ordinal 2024 6 30) = ''unknown'' \<and>
   determine_position_status strptime_iso [dated ''2024-05-31''] (date_ordinal 2024 6 30) = ''current'' \<and>
   determine_position_status strptime_iso [dated ''2022-04-22''] (date_ordinal 2024 6 30) = ''former'' \<and>
   determine_position_status strptime_iso [dated ''2023-02-16''] (date_ordinal 2024 6 30) = ''unknown'' \<and>
   determine_position_status strptime_iso [dated ''last week''] (date_ordinal 2024 6 30) = ''unknown''"
proof -
  have now: "date_ordinal 2024 6 30 = 739067" by code_simp
  have d30: "transaction_dates strptime_iso [dated ''2024-05-31''] = Some [739067 - 30]"
    by code_simp
  have d800: "transaction_dates strptime_iso [dated ''2022-04-22''] = Some [739067 - 800]"
    by code_simp
  have d500: "transaction_dates strptime_iso [dated ''2023-02-16''] = Some [739067 - 500]"
    by code_simp
  have bad: "transaction_dates strptime_iso [dated ''last week''] = None"
    by code_simp
  note c = determine_position_status_classifies [where strptime = strptime_iso
      and current_date = "date_ordinal 2024 6 30"]
  have "determine_position_status strptime_iso [] (date_ordinal 2024 6 30) = ''unknown''"
    using c [of "[]"] by simp
  moreover have "determine_position_status strptime_iso [dated ''2024-05-31'']
      (date_ordinal 2024 6 30) = ''current''"
    using c [of "[dated ''2024-05-31'']"] d30 now by simp
  moreover have "determine_position_status strptime_iso [dated ''2022-04-22'']
      (date_ordinal 2024 6 30) = ''former''"
    using c [of "[dated ''2022-04-22'']"] d800 now by simp
  moreover have "determine_position_status strptime_iso [dated ''2023-02-16'']
      (date_ordinal 2024 6 30) = ''unknown''"
    using c [of "[dated ''2023-02-16'']"] d500 now by simp
  moreover have "determine_position_status strptime_iso [dated ''last week'']
      (date_ordinal 2024 6 30) = ''unknown''"
    using c [of "[dated ''last week'']"] bad by simp
  ultimately show ?thesis by simp
qed

section \<open>utils.py: Cache and cached\<close>

text \<open>A \<open>datetime\<close> and a \<open>timedelta\<close> are counted in microseconds.\<close>

type_synonym pytime = int

definition hours :: "int \<Rightarrow> pytime" where
  "hours n = n * 3600000000"

definition days :: "int \<Rightarrow> pytime" where
  "days n = n * 24 * 3600000000"

record 'v entry =
  entry_value :: "'v option"
  expires_at :: pytime
  filing_type :: string

type_synonym 'v cache = "string \<rightharpoonup> 'v entry"

definition default_ttl :: "(string \<times> pytime) list" where
  "default_ttl = [(''form4'', hours 1), (''13f'', days 1), (''10k'', days 7), (''10q'', days 7),
     (''8k'', hours 1), (''default'', hours 4)]"

text \<open>\<open>self.default_ttl.get(filing_type.lower(), self.default_ttl['default'])\<close>.\<close>

definition ttl_of :: "string \<Rightarrow> pytime" where
  "ttl_of ft = (case map_of default_ttl (py_lower ft) of Some ttl \<Rightarrow> ttl | None \<Rightarrow> hours 4)"

text \<open>The key parts that \<open>cached\<close> builds: the function name, the positional arguments and
  the sorted items of the keyword arguments. \<open>json.dumps(key_parts, sort_keys=True)\<close> raises
  \<open>TypeError\<close> on a value it cannot serialize; it and \<open>hashlib.md5(...).hexdigest()\<close> are
  parameters of the model.\<close>

type_synonym 'a key_parts = "string \<times> 'a list \<times> (string \<times> 'a) list"

definition get_cache_key ::
  "('a key_parts \<Rightarrow> exn + string) \<Rightarrow> (string \<Rightarrow> string) \<Rightarrow> 'a key_parts \<Rightarrow> exn + string" where
  "get_cache_key dumps md5 key_parts =
     (case dumps key_parts of Inl e \<Rightarrow> Inl e | Inr key_str \<Rightarrow> Inr (md5 key_str))"

definition cache_get ::
  "('a key_parts \<Rightarrow> exn + string) \<Rightarrow> (string \<Rightarrow> string) \<Rightarrow> 'a key_parts \<Rightarrow> pytime \<Rightarrow> 'v cache
     \<Rightarrow> exn + ('v option \<times> 'v cache)" where
  "cache_get dumps md5 key_parts now cache =
     (case get_cache_key dumps md5 key_parts of
        Inl e \<Rightarrow> Inl e
      | Inr cache_key \<Rightarrow>
          (case cache cache_key of
             Some entry \<Rightarrow>
               if now < expires_at entry then Inr (entry_value entry, cache)
               else Inr (None, cache(cache_key := None))
           | None \<Rightarrow> Inr (None, cache)))"

definition cache_set ::
  "('a key_parts \<Rightarrow> exn + string) \<Rightarrow> (string \<Rightarrow> string) \<Rightarrow> 'a key_parts \<Rightarrow> 'v option \<Rightarrow> string
     \<Rightarrow> pytime \<Rightarrow> 'v cache \<Rightarrow> exn + 'v cache" where
  "cache_set dumps md5 key_parts val ft now cache =
     (case get_cache_key dumps md5 key_parts of
        Inl e \<Rightarrow> Inl e
      | Inr cache_key \<Rightarrow>
          Inr (cache(cache_key \<mapsto>
                 \<lparr>entry_value = val, expires_at = now + ttl_of ft, filing_type = ft\<rparr>)))"

text \<open>The global cache, and how many times wrapped functions have been executed.\<close>

record 'v world =
  store :: "'v cache"
  calls :: nat

text \<open>\<open>sorted(kwargs.items())\<close>: the keys of a dict are distinct, so sorting the pairs
  is sorting by key.\<close>

definition sorted_items :: "(string \<times> 'a) list \<Rightarrow> (string \<times> 'a) list" where
  "sorted_items kwargs = sort_key fst kwargs"

text \<open>The wrapper that \<open>cached(filing_type)\<close> puts around \<open>func\<close>. \<open>t_get\<close> and \<open>t_set\<close>
  are the two readings of \<open>datetime.now()\<close>, in \<open>cache.get\<close> and in \<open>cache.set\<close>.\<close>

definition cached ::
  "string \<Rightarrow> ('a key_parts \<Rightarrow> exn + string) \<Rightarrow> (string \<Rightarrow> string) \<Rightarrow> string
     \<Rightarrow> ('a list \<Rightarrow> (string \<times> 'a) list \<Rightarrow> exn + 'v option) \<Rightarrow> pytime \<Rightarrow> pytime
     \<Rightarrow> 'a list \<Rightarrow> (string \<times> 'a) list \<Rightarrow> 'v world \<Rightarrow> (exn + 'v option) \<times> 'v world" where
  "cached ft dumps md5 name func t_get t_set args kwargs w =
     (let key_parts = (name, args, sorted_items kwargs) in
      case cache_get dumps md5 key_parts t_get (store w) of
        Inl e \<Rightarrow> (Inl e, w)
      | Inr (cached_value, cache) \<Rightarrow>
          if cached_value \<noteq> None then (Inr cached_value, w\<lparr>store := cache\<rparr>)
          else
            (case func args kwargs of
               Inl e \<Rightarrow> (Inl e, \<lparr>store = cache, calls = calls w + 1\<rparr>)
             | Inr result \<Rightarrow>
                 (case cache_set dumps md5 key_parts result ft t_set cache of
                    Inl e \<Rightarrow> (Inl e, \<lparr>store = cache, calls = calls w + 1\<rparr>)
                  | Inr cache' \<Rightarrow> (Inr result, \<lparr>store = cache', calls = calls w + 1\<rparr>))))"

lemma cached_miss:
  assumes "get_cache_key dumps md5 (name, args, sorted_items kwargs) = Inr k"
    and "store w k = None \<or> (\<exists>e. store w k = Some e \<and> (expires_at e \<le> t \<or> entry_value e = None))"
    and "func args kwargs = Inr r"
  shows "cached ft dumps md5 name func t t' args kwargs w =
     (Inr r, \<lparr>store = (store w)(k \<mapsto> \<lparr>entry_value = r, expires_at = t' + ttl_of ft, filing_type = ft\<rparr>),
              calls = calls w + 1\<rparr>)"
  using assms by (auto simp: cached_def cache_get_def cache_set_def Let_def)

lemma cached_hit:
  assumes "get_cache_key dumps md5 (name, args, sorted_items kwargs) = Inr k"
    and "store w k = Some e" "t < expires_at e" "entry_value e = Some v"
  shows "cached ft dumps md5 name func t t' args kwargs w = (Inr (Some v), w)"
  using assms by (auto simp: cached_def cache_get_def Let_def)

lemma map_insort_key: "map f (insort_key f x xs) = insort (f x) (map f xs)"
  by (induction xs) simp_all

lemma map_sort_key: "map f (sort_key f xs) = sort (map f xs)"
  by (induction xs) (simp_all add: map_insort_key)

lemma sorted_items_keys:
  assumes "distinct (map fst xs)"
  shows "sorted_items xs = map (\<lambda>k. (k, the (map_of xs k))) (sort (map fst xs))"
proof -
  have "map (\<lambda>p. (fst p, the (map_of xs (fst p)))) (sort_key fst xs) = sort_key fst xs"
  proof (rule map_idI)
    fix p assume "p \<in> set (sort_key fst xs)"
    then have "(fst p, snd p) \<in> set xs" by simp
    with assms have "map_of xs (fst p) = Some (snd p)" by (rule map_of_is_SomeI)
    then show "(fst p, the (map_of xs (fst p))) = p" by simp
  qed
  then show ?thesis by (simp add: sorted_items_def map_sort_key [symmetric] comp_def)
qed

lemma sorted_items_order:
  assumes "distinct (map fst xs)" "distinct (map fst ys)" "map_of xs = map_of ys"
  shows "sorted_items xs = sorted_items ys"
proof -
  from assms have "set xs = set ys" by (simp add: map_of_inject_set)
  then have "set (map fst xs) = set (map fst ys)" by simp
  then have "sort (map fst xs) = sort (map fst ys)"
    using assms(1,2) by (intro sorted_distinct_set_unique) simp_all
  with assms show ?thesis by (simp add: sorted_items_keys)
qed

text \<open>Stand-ins for \<open>json.dumps\<close> and \<open>md5\<close> to run the cache with, for functions whose
  arguments are strings.\<close>

definition dumps_plain :: "string key_parts \<Rightarrow> exn + string" where
  "dumps_plain key_parts =
     (case key_parts of (name, args, items) \<Rightarrow>
        Inr (py_join '','' ([name] @ args @ concat (map (\<lambda>(k, v). [k, v]) items))))"

definition digest_plain :: "string \<Rightarrow> string" where
  "digest_plain key_str = key_str"

lemma ttl_default: "ttl_of ''default'' = 14400000000"
  by code_simp

section \<open>The cache round trip\<close>

text \<open>
  C5 (as amended). Take a cached operation whose key can be derived and whose computation
  returns a value other than \<open>None\<close>, and start with no entry under its key. The first
  invocation executes the computation and stores the value with expiry
  \<open>creation time + TTL\<close>, the creation time being the clock reading of \<open>cache.set\<close>. A second
  invocation with the same name and arguments whose lookup comes before the expiry returns
  the stored value, executes nothing and leaves the cache as it is; one whose lookup
  comes at or after the expiry executes the computation again. A lookup at or after the
  expiry never returns the entry: it misses and deletes the entry.
\<close>

theorem cached_round_trip:
  assumes key: "get_cache_key dumps md5 (name, args, sorted_items kwargs) = Inr k"
    and cold: "store w0 k = None"
    and res: "func args kwargs = Inr (Some v)"
    and first: "cached ft dumps md5 name func t1 t1' args kwargs w0 = (r1, w1)"
    and second: "cached ft dumps md5 name func t2 t2' args kwargs w1 = (r2, w2)"
  shows "r1 = Inr (Some v) \<and> calls w1 = calls w0 + 1 \<and> r2 = Inr (Some v) \<and>
         (t2 < t1' + ttl_of ft \<longrightarrow> calls w2 = calls w0 + 1 \<and> w2 = w1) \<and>
         (t1' + ttl_of ft \<le> t2 \<longrightarrow> calls w2 = calls w0 + 2) \<and>
         (\<forall>now. t1' + ttl_of ft \<le> now \<longrightarrow>
            cache_get dumps md5 (name, args, sorted_items kwargs) now (store w1) =
              Inr (None, (store w1)(k := None)))"
proof -
  let ?e = "\<lparr>entry_value = Some v, expires_at = t1' + ttl_of ft, filing_type = ft\<rparr>"
  from cached_miss [where func = func and w = w0 and t = t1 and ft = ft and t' = t1', OF key _ res]
    cold first
  have r1: "r1 = Inr (Some v)" and w1: "w1 = \<lparr>store = (store w0)(k \<mapsto> ?e), calls = calls w0 + 1\<rparr>"
    by simp_all
  have e: "store w1 k = Some ?e" by (simp add: w1)
  have hit: "r2 = Inr (Some v) \<and> w2 = w1" if "t2 < t1' + ttl_of ft"
    using cached_hit [where func = func and t = t2 and ft = ft and t' = t2' and v = v, OF key e]
      that second by simp
  have miss: "r2 = Inr (Some v) \<and> calls w2 = calls w0 + 2" if "t1' + ttl_of ft \<le> t2"
    using cached_miss [where func = func and w = w1 and t = t2 and ft = ft and t' = t2', OF key _ res]
      e that second by (auto simp: w1)
  have "cache_get dumps md5 (name, args, sorted_items kwargs) now (store w1) =
      Inr (None, (store w1)(k := None))" if "t1' + ttl_of ft \<le> now" for now
    using key e that by (simp add: cache_get_def)
  with r1 w1 hit miss show ?thesis by (cases "t2 < t1' + ttl_of ft") auto
qed

text \<open>
  C5 as stated fails for a computation that returns \<open>None\<close>: the wrapper takes a
  \<open>None\<close> from \<open>cache.get\<close> for a miss, so the stored \<open>None\<close> is never a hit and the
  second invocation, one microsecond after the first, executes the computation again.
\<close>

theorem cached_none_recomputed:
  "(1::int) < 0 + ttl_of ''default'' \<and>
   calls (snd (cached ''default'' dumps_plain digest_plain ''lookup''
            (\<lambda>args kwargs. Inr (None :: string option)) 1 1 [''Gale Klappa''] []
            (snd (cached ''default'' dumps_plain digest_plain ''lookup''
               (\<lambda>args kwargs. Inr None) 0 0 [''Gale Klappa''] []
               \<lparr>store = Map.empty, calls = 0\<rparr>)))) = 2"
  by (simp add: ttl_default cached_def cache_get_def cache_set_def get_cache_key_def
      dumps_plain_def digest_plain_def sorted_items_def Let_def)

theorem cached_round_trip_witness:
  "fst (cached ''default'' dumps_plain digest_plain ''get_all_public_companies''
          (\<lambda>args kwargs. Inr (Some ''companies'')) 10 10 [''agent''] []
          (snd (cached ''default'' dumps_plain digest_plain ''get_all_public_companies''
             (\<lambda>args kwargs. Inr (Some ''companies'')) 0 5 [''agent''] []
             \<lparr>store = Map.empty, calls = 0\<rparr>))) = Inr (Some ''companies'') \<and>
   calls (snd (cached ''default'' dumps_plain digest_plain ''get_all_public_companies''
          (\<lambda>args kwargs. Inr (Some ''companies'')) 10 10 [''agent''] []
          (snd (cached ''default'' dumps_plain digest_plain ''get_all_public_companies''
             (\<lambda>args kwargs. Inr (Some ''companies'')) 0 5 [''agent''] []
             \<lparr>store = Map.empty, calls = 0\<rparr>)))) = 1 \<and>
   calls (snd (cached ''default'' dumps_plain digest_plain ''get_all_public_companies''
          (\<lambda>args kwargs. Inr (Some ''companies'')) 14400000005 14400000005 [''agent''] []
          (snd (cached ''default'' dumps_plain digest_plain ''get_all_public_companies''
             (\<lambda>args kwargs. Inr (Some ''companies'')) 0 5 [''agent''] []
             \<lparr>store = Map.empty, calls = 0\<rparr>)))) = 2"
proof -
  let ?f = "\<lambda>(args :: string list) (kwargs :: (string \<times> string) list).
              (Inr (Some ''companies'') :: exn + string option)"
  let ?w0 = "\<lparr>store = Map.empty, calls = 0\<rparr> :: string world"
  let ?c = "cached ''default'' dumps_plain digest_plain ''get_all_public_companies'' ?f"
  let ?w1 = "snd (?c 0 5 [''agent''] [] ?w0)"
  have key: "get_cache_key dumps_plain digest_plain
      (''get_all_public_companies'', [''agent''], sorted_items []) =
      Inr ''get_all_public_companies,agent''"
    by (simp add: get_cache_key_def dumps_plain_def digest_plain_def sorted_items_def)
  have cold: "store ?w0 ''get_all_public_companies,agent'' = None" by simp
  have res: "?f [''agent''] [] = Inr (Some ''companies'')" by simp
  have first: "?c 0 5 [''agent''] [] ?w0 = (fst (?c 0 5 [''agent''] [] ?w0), ?w1)" by simp
  have second: "?c t t [''agent''] [] ?w1 =
      (fst (?c t t [''agent''] [] ?w1), snd (?c t t [''agent''] [] ?w1))" for t
    by simp
  from cached_round_trip [OF key cold res first second [of 10]]
    cached_round_trip [OF key cold res first second [of 14400000005]]
  show ?thesis by (simp add: ttl_default)
qed

section \<open>The cache key and the order of keyword arguments\<close>

text \<open>
  C9. The cache key is a function of the operation name, the positional arguments and the
  bindings of the keyword arguments: two calls whose keyword arguments bind the same names
  to the same values, in any order, derive the same key (both derivations fail alike when
  \<open>json.dumps\<close> cannot serialize an argument), and a lookup with the one finds, before its
  expiry, the entry stored with the other.
\<close>

theorem cache_key_kwargs_order:
  assumes "distinct (map fst kwargs1)" "distinct (map fst kwargs2)"
    and "map_of kwargs1 = map_of kwargs2"
  shows "get_cache_key dumps md5 (name, args, sorted_items kwargs1) =
         get_cache_key dumps md5 (name, args, sorted_items kwargs2) \<and>
         (\<forall>cache cache' val now.
            cache_set dumps md5 (name, args, sorted_items kwargs1) val ft t cache = Inr cache' \<and>
            now < t + ttl_of ft \<longrightarrow>
            cache_get dumps md5 (name, args, sorted_items kwargs2) now cache' = Inr (val, cache'))"
proof -
  have eq: "sorted_items kwargs1 = sorted_items kwargs2"
    using assms by (rule sorted_items_order)
  show ?thesis unfolding eq
    by (auto simp: cache_set_def cache_get_def split: sum.splits)
qed

theorem cache_key_kwargs_order_witness:
  "get_cache_key dumps_plain digest_plain (''get_insider_transactions'', [],
      sorted_items [(''person_name'', ''Gale Klappa''), (''company'', ''WEC'')]) =
   get_cache_key dumps_plain digest_plain (''get_insider_transactions'', [],
      sorted_items [(''company'', ''WEC''), (''person_name'', ''Gale Klappa'')]) \<and>
   sorted_items [(''person_name'', ''Gale Klappa''), (''company'', ''WEC'')] =
     [(''company'', ''WEC''), (''person_name'', ''Gale Klappa'')]"
proof -
  have d1: "distinct (map fst [(''person_name'', ''Gale Klappa''), (''company'', ''WEC'')])"
    by simp
  have d2: "distinct (map fst [(''company'', ''WEC''), (''person_name'', ''Gale Klappa'')])"
    by simp
  have m: "map_of [(''person_name'', ''Gale Klappa''), (''company'', ''WEC'')] =
           map_of [(''company'', ''WEC''), (''person_name'', ''Gale Klappa'')]"
    by (rule ext) simp
  have s: "sorted_items [(''person_name'', ''Gale Klappa''), (''company'', ''WEC'')] =
     [(''company'', ''WEC''), (''person_name'', ''Gale Klappa'')]"
    by code_simp
  from cache_key_kwargs_order [OF d1 d2 m, THEN conjunct1,
      of dumps_plain digest_plain "''get_insider_transactions''" "[]"]
    s show ?thesis by simp
qed

section \<open>xml.etree.ElementTree\<close>

text \<open>An element with its tag, its text (\<open>None\<close> when there is none) and its children.
  Attributes and tails are left out: the parser does not read them.\<close>

datatype element = Element (el_tag: string) (el_text: "string option") (el_children: "element list")

text \<open>All elements below an element, in document order.\<close>

fun descendants :: "element \<Rightarrow> element list" where
  "descendants (Element t x cs) = concat (map (\<lambda>c. c # descendants c) cs)"

text \<open>The paths the parser uses: \<open>'tag'\<close>, \<open>'.//tag'\<close> and \<open>'.//a/b'\<close>.\<close>

datatype path = Child string | Desc string | DescChild string string

definition el_findall :: "element \<Rightarrow> path \<Rightarrow> element list" where
  "el_findall e p =
     (case p of
        Child t \<Rightarrow> filter (\<lambda>c. el_tag c = t) (el_children e)
      | Desc t \<Rightarrow> filter (\<lambda>c. el_tag c = t) (descendants e)
      | DescChild a b \<Rightarrow>
          concat (map (\<lambda>d. filter (\<lambda>c. el_tag c = b) (el_children d))
                      (filter (\<lambda>d. el_tag d = a) (descendants e))))"

definition el_find :: "element \<Rightarrow> path \<Rightarrow> element option" where
  "el_find e p = (case el_findall e p of [] \<Rightarrow> None | x # xs \<Rightarrow> Some x)"

text \<open>An element used as a condition is true when it has children (and \<open>None\<close> is
  false).\<close>

definition el_truthy :: "element option \<Rightarrow> bool" where
  "el_truthy e = (case e of None \<Rightarrow> False | Some x \<Rightarrow> el_children x \<noteq> [])"

text \<open>A string or \<open>None\<close> used as a condition, and Python's \<open>or\<close> on two of them.\<close>

definition str_truthy :: "string option \<Rightarrow> bool" where
  "str_truthy v = (case v of None \<Rightarrow> False | Some s \<Rightarrow> s \<noteq> [])"

definition str_or :: "string option \<Rightarrow> string option \<Rightarrow> string option" where
  "str_or a b = (if str_truthy a then a else b)"

text \<open>A float or \<open>None\<close> used as a condition (zero is false), and \<open>or\<close>. Floats are
  modelled by the rational numbers they stand for: rounding is not modelled.\<close>

definition num_truthy :: "rat option \<Rightarrow> bool" where
  "num_truthy v = (case v of None \<Rightarrow> False | Some x \<Rightarrow> x \<noteq> 0)"

definition num_or :: "rat option \<Rightarrow> rat option \<Rightarrow> rat option" where
  "num_or a b = (if num_truthy a then a else b)"

section \<open>form4\_parser.py: Form4Parser\<close>

text \<open>What the parser takes from libraries and from the clock: \<open>ET.fromstring\<close>,
  \<open>BeautifulSoup(content, 'xml')\<close> (see below), \<open>float\<close> on a string (\<open>None\<close> is its
  \<open>ValueError\<close>), \<open>strptime\<close> and \<open>datetime.now()\<close>.\<close>

datatype soup = Tag (tag_name: string) (tag_contents: "soup list") | NavigableString string

record libs =
  et_fromstring :: "string \<Rightarrow> exn + element"
  beautifulsoup :: "string \<Rightarrow> exn + soup"
  py_float :: "string \<Rightarrow> rat option"
  lib_strptime :: strptime
  datetime_now :: pytime

datatype transaction_type = PURCHASE | SALE | GIFT | CONVERSION | EXERCISE | OTHER

datatype ownership_type = DIRECT | INDIRECT

text \<open>The dataclass \<open>InsiderTransaction\<close>. Python does not check the declared field types:
  a field holds what the parser puts there, which for some fields can be \<open>None\<close>.\<close>

record insider_transaction =
  insider_name :: "string option"
  insider_title :: "string option"
  company_name :: "string option"
  company_cik :: "string option"
  ticker :: "string option"
  transaction_date :: "pydate option"
  transaction_type :: transaction_type
  security_title :: string
  shares :: rat
  price_per_share :: "rat option"
  total_value :: "rat option"
  ownership_type :: ownership_type
  shares_owned_after :: "rat option"
  filing_date :: pytime
  accession_number :: string
  form_type :: string

definition transaction_code_map :: "(string \<times> transaction_type) list" where
  "transaction_code_map =
     [(''P'', PURCHASE), (''S'', SALE), (''G'', GIFT), (''C'', CONVERSION), (''M'', EXERCISE),
      (''F'', SALE), (''D'', SALE), (''A'', PURCHASE), (''J'', OTHER), (''K'', OTHER),
      (''L'', OTHER), (''U'', OTHER), (''V'', OTHER), (''W'', OTHER), (''X'', EXERCISE),
      (''Z'', OTHER)]"

text \<open>\<open>self.TRANSACTION_CODE_MAP.get(trans_code, TransactionType.OTHER)\<close>.\<close>

definition code_type :: "string option \<Rightarrow> transaction_type" where
  "code_type trans_code =
     (case trans_code of None \<Rightarrow> OTHER
      | Some c \<Rightarrow> (case map_of transaction_code_map c of Some t \<Rightarrow> t | None \<Rightarrow> OTHER))"

text \<open>\<open>found is not None and found.text\<close>, and then \<open>found.text.strip()\<close>.\<close>

definition found_text :: "element option \<Rightarrow> string option" where
  "found_text found =
     (case found of None \<Rightarrow> None
      | Some f \<Rightarrow> (case el_text f of None \<Rightarrow> None
                  | Some s \<Rightarrow> if s = [] then None else Some (py_strip s)))"

definition get_text :: "element option \<Rightarrow> path \<Rightarrow> string option \<Rightarrow> string option" where
  "get_text element p dflt =
     (case element of
        None \<Rightarrow> dflt
      | Some e \<Rightarrow>
          (case found_text (el_find e p) of
             Some s \<Rightarrow> Some s
           | None \<Rightarrow>
               (case p of
                  Child t \<Rightarrow>
                    (case found_text (el_find e (Desc t)) of Some s \<Rightarrow> Some s | None \<Rightarrow> dflt)
                | _ \<Rightarrow> dflt)))"

text \<open>utils.py: \<open>clean_number\<close> on what \<open>_get_text\<close> returns.\<close>

definition clean_number :: "(string \<Rightarrow> rat option) \<Rightarrow> string option \<Rightarrow> rat option" where
  "clean_number to_float v =
     (case v of
        None \<Rightarrow> None
      | Some s \<Rightarrow>
          (let cleaned = py_strip s;
               cleaned = filter (\<lambda>c. c \<noteq> CHR '','') cleaned;
               cleaned = filter (\<lambda>c. c \<noteq> CHR ''$'') cleaned;
               cleaned = filter (\<lambda>c. c \<noteq> CHR ''%'') cleaned;
               cleaned = (if cleaned \<noteq> [] \<and> hd cleaned = CHR ''('' \<and> last cleaned = CHR '')''
                          then ''-'' @ butlast (tl cleaned) else cleaned)
           in to_float cleaned))"

text \<open>utils.py: \<open>normalize_cik\<close>; \<open>str(None)\<close> is \<open>'None'\<close>.\<close>

definition is_digit :: "char \<Rightarrow> bool" where
  "is_digit c = (48 \<le> (of_char c :: nat) \<and> (of_char c :: nat) \<le> 57)"

definition normalize_cik :: "string option \<Rightarrow> string" where
  "normalize_cik cik =
     (let s = (case cik of None \<Rightarrow> ''None'' | Some c \<Rightarrow> c);
          cik_clean = filter is_digit s
      in replicate (10 - length cik_clean) (CHR ''0'') @ cik_clean)"

text \<open>The dict \<open>filing_info\<close>: a key that is absent and a key that holds \<open>None\<close> are both
  \<open>None\<close> here. The keys read by subscript (\<open>insider_name\<close>, \<open>company_name\<close>,
  \<open>company_cik\<close>, \<open>filing_date\<close>, \<open>form_type\<close>) are present in every dict that
  \<open>_extract_filing_info\<close> returns.\<close>

record filing_info =
  fi_company_name :: "string option"
  fi_company_cik :: "string option"
  fi_ticker :: "string option"
  fi_insider_name :: "string option"
  fi_insider_cik :: "string option"
  fi_insider_title :: "string option"
  fi_period_of_report :: "pydate option"
  fi_filing_date :: pytime
  fi_form_type :: string

definition relationship_titles :: "element \<Rightarrow> string list" where
  "relationship_titles relationships =
     (if get_text (Some relationships) (Child ''isDirector'') None = Some ''1''
      then [''Director''] else []) @
     (if get_text (Some relationships) (Child ''isOfficer'') None = Some ''1''
      then (case get_text (Some relationships) (Child ''officerTitle'') None of
              None \<Rightarrow> [] | Some officer_title \<Rightarrow> if officer_title = [] then [] else [officer_title])
      else []) @
     (if get_text (Some relationships) (Child ''isTenPercentOwner'') None = Some ''1''
      then [''10% Owner''] else [])"

definition extract_filing_info :: "libs \<Rightarrow> element \<Rightarrow> filing_info option" where
  "extract_filing_info L xml_root =
     (let issuer = el_find xml_root (Desc ''issuer'');
          owner = (case el_find xml_root (Desc ''reportingOwner'') of
                     None \<Rightarrow> el_find xml_root (Child ''reportingOwner'') | Some ow \<Rightarrow> Some ow);
          owner_id = (case owner of None \<Rightarrow> None
                      | Some ow \<Rightarrow> (case el_find ow (Desc ''reportingOwnerId'') of
                                     None \<Rightarrow> el_find ow (Child ''reportingOwnerId'')
                                   | Some i \<Rightarrow> Some i));
          relationships = (case owner of None \<Rightarrow> None
                           | Some ow \<Rightarrow> el_find ow (Desc ''reportingOwnerRelationship''));
          period = get_text (Some xml_root) (Desc ''periodOfReport'') None;
          info = \<lparr>
            fi_company_name = (case issuer of None \<Rightarrow> None
                               | Some i \<Rightarrow> get_text issuer (Child ''issuerName'') None),
            fi_company_cik = (case issuer of None \<Rightarrow> None
                              | Some i \<Rightarrow> Some (normalize_cik (get_text issuer (Child ''issuerCik'') None))),
            fi_ticker = (case issuer of None \<Rightarrow> None
                         | Some i \<Rightarrow> get_text issuer (Child ''issuerTradingSymbol'') None),
            fi_insider_name = (case owner_id of None \<Rightarrow> None
                               | Some i \<Rightarrow>
                                   str_or (get_text owner_id (Child ''rptOwnerName'') None)
                                     (str_or (get_text owner_id (Child ''reportingOwnerName'') None)
                                        (str_or (get_text owner_id (Desc ''rptOwnerName'') None)
                                           (get_text owner_id (Desc ''reportingOwnerName'') None)))),
            fi_insider_cik = (case owner_id of None \<Rightarrow> None
                              | Some i \<Rightarrow> get_text owner_id (Child ''rptOwnerCik'') None),
            fi_insider_title = (case relationships of None \<Rightarrow> None
                                | Some r \<Rightarrow> (let titles = relationship_titles r in
                                             if titles \<noteq> [] then Some (py_join '', '' titles) else None)),
            fi_period_of_report = (case period of None \<Rightarrow> None
                                   | Some p \<Rightarrow> if p = [] then None else parse_date (lib_strptime L) p),
            fi_filing_date = datetime_now L,
            fi_form_type = (case get_text (Some xml_root) (Desc ''documentType'') (Some ''4'') of
                              None \<Rightarrow> ''4'' | Some t \<Rightarrow> t)\<rparr>
      in if str_truthy (fi_company_name info) \<and> str_truthy (fi_insider_name info)
         then Some info else None)"

text \<open>\<open>direct_indirect and direct_indirect.upper() == 'I'\<close>: of the strings modelled here,
  only \<open>'I'\<close> and \<open>'i'\<close> have the upper case \<open>'I'\<close>.\<close>

definition ownership_of :: "element \<Rightarrow> ownership_type" where
  "ownership_of elem =
     (case el_find elem (Desc ''ownershipNature'') of
        None \<Rightarrow> DIRECT
      | Some ownership \<Rightarrow>
          (case get_text (Some ownership) (DescChild ''directOrIndirectOwnership'' ''value'') None of
             None \<Rightarrow> DIRECT
           | Some direct_indirect \<Rightarrow>
               if direct_indirect = ''I'' \<or> direct_indirect = ''i'' then INDIRECT else DIRECT))"

text \<open>The date of a transaction element: its own, or the period of the report.\<close>

definition transaction_date_of :: "libs \<Rightarrow> element \<Rightarrow> filing_info \<Rightarrow> pydate option" where
  "transaction_date_of L trans_elem info =
     (case get_text (Some trans_elem) (DescChild ''transactionDate'' ''value'') None of
        None \<Rightarrow> fi_period_of_report info
      | Some trans_date_str \<Rightarrow>
          if trans_date_str = [] then fi_period_of_report info
          else parse_date (lib_strptime L) trans_date_str)"

text \<open>\<open>_parse_non_derivative_transaction\<close>. No step of its \<open>try\<close> block raises on these
  values; \<open>None\<close> is its \<open>return None\<close>.\<close>

definition parse_non_derivative_transaction ::
  "libs \<Rightarrow> element \<Rightarrow> filing_info \<Rightarrow> string \<Rightarrow> insider_transaction option" where
  "parse_non_derivative_transaction L trans_elem info accession =
     (case get_text (Some trans_elem) (DescChild ''securityTitle'' ''value'') None of
        None \<Rightarrow> None
      | Some title \<Rightarrow>
          if title = [] then None
          else
            (case el_find trans_elem (Desc ''transactionAmounts'') of
               None \<Rightarrow> None
             | Some trans_amounts \<Rightarrow>
                 (case clean_number (py_float L)
                         (get_text (Some trans_amounts) (DescChild ''transactionShares'' ''value'') None) of
                    None \<Rightarrow> None
                  | Some shares_val \<Rightarrow>
                      (let price = clean_number (py_float L)
                             (get_text (Some trans_amounts)
                                (DescChild ''transactionPricePerShare'' ''value'') None);
                           trans_coding = el_find trans_elem (Desc ''transactionCoding'');
                           trans_code = (if el_truthy trans_coding
                                         then get_text trans_coding (Desc ''transactionCode'') None
                                         else Some ''P'');
                           post_trans = el_find trans_elem (Desc ''postTransactionAmounts'');
                           shares_after =
                             (if el_truthy post_trans
                              then clean_number (py_float L)
                                     (get_text post_trans
                                        (DescChild ''sharesOwnedFollowingTransaction'' ''value'') None)
                              else Some 0);
                           total = (case price of None \<Rightarrow> None
                                    | Some p \<Rightarrow> if p = 0 then None else Some (shares_val * p))
                       in Some \<lparr>
                            insider_name = fi_insider_name info,
                            insider_title = fi_insider_title info,
                            company_name = fi_company_name info,
                            company_cik = fi_company_cik info,
                            ticker = fi_ticker info,
                            transaction_date = transaction_date_of L trans_elem info,
                            transaction_type = code_type trans_code,
                            security_title = title,
                            shares = shares_val,
                            price_per_share = price,
                            total_value = total,
                            ownership_type = ownership_of trans_elem,
                            shares_owned_after = shares_after,
                            filing_date = fi_filing_date info,
                            accession_number = accession,
                            form_type = fi_form_type info\<rparr>))))"

text \<open>\<open>_parse_non_derivative_holding\<close>: a record for a holding, with no transaction.\<close>

definition parse_non_derivative_holding ::
  "libs \<Rightarrow> element \<Rightarrow> filing_info \<Rightarrow> string \<Rightarrow> insider_transaction option" where
  "parse_non_derivative_holding L holding_elem info accession =
     (case get_text (Some holding_elem) (DescChild ''securityTitle'' ''value'') None of
        None \<Rightarrow> None
      | Some title \<Rightarrow>
          if title = [] then None
          else
            (case el_find holding_elem (Desc ''postTransactionAmounts'') of
               None \<Rightarrow> None
             | Some post_trans \<Rightarrow>
                 (case clean_number (py_float L)
                         (get_text (Some post_trans)
                            (DescChild ''sharesOwnedFollowingTransaction'' ''value'') None) of
                    None \<Rightarrow> None
                  | Some shares_owned \<Rightarrow>
                      Some \<lparr>
                        insider_name = fi_insider_name info,
                        insider_title = fi_insider_title info,
                        company_name = fi_company_name info,
                        company_cik = fi_company_cik info,
                        ticker = fi_ticker info,
                        transaction_date = fi_period_of_report info,
                        transaction_type = OTHER,
                        security_title = title,
                        shares = 0,
                        price_per_share = None,
                        total_value = None,
                        ownership_type = ownership_of holding_elem,
                        shares_owned_after = Some shares_owned,
                        filing_date = fi_filing_date info,
                        accession_number = accession,
                        form_type = fi_form_type info\<rparr>)))"

text \<open>\<open>_parse_derivative_transaction\<close>: the record's price falls back to the conversion or
  exercise price; the total is computed from the transaction's own price.\<close>

definition parse_derivative_transaction ::
  "libs \<Rightarrow> element \<Rightarrow> filing_info \<Rightarrow> string \<Rightarrow> insider_transaction option" where
  "parse_derivative_transaction L trans_elem info accession =
     (case get_text (Some trans_elem) (DescChild ''securityTitle'' ''value'') None of
        None \<Rightarrow> None
      | Some title \<Rightarrow>
          if title = [] then None
          else
            (let conversion_price = clean_number (py_float L)
                   (get_text (Some trans_elem) (DescChild ''conversionOrExercisePrice'' ''value'') None)
             in case el_find trans_elem (Desc ''transactionAmounts'') of
               None \<Rightarrow> None
             | Some trans_amounts \<Rightarrow>
                 (case clean_number (py_float L)
                         (get_text (Some trans_amounts) (DescChild ''transactionShares'' ''value'') None) of
                    None \<Rightarrow> None
                  | Some shares_val \<Rightarrow>
                      (let price = clean_number (py_float L)
                             (get_text (Some trans_amounts)
                                (DescChild ''transactionPricePerShare'' ''value'') None);
                           trans_coding = el_find trans_elem (Desc ''transactionCoding'');
                           trans_code = (if el_truthy trans_coding
                                         then get_text trans_coding (Desc ''transactionCode'') None
                                         else Some ''M'');
                           underlying_shares =
                             (case el_find trans_elem (Desc ''underlyingSecurity'') of
                                None \<Rightarrow> 0
                              | Some underlying \<Rightarrow>
                                  (case clean_number (py_float L)
                                          (get_text (Some underlying)
                                             (DescChild ''underlyingSecurityShares'' ''value'') None) of
                                     None \<Rightarrow> 0 | Some u \<Rightarrow> u));
                           total = (case price of None \<Rightarrow> None
                                    | Some p \<Rightarrow> if p = 0 then None else Some (shares_val * p))
                       in Some \<lparr>
                            insider_name = fi_insider_name info,
                            insider_title = fi_insider_title info,
                            company_name = fi_company_name info,
                            company_cik = fi_company_cik info,
                            ticker = fi_ticker info,
                            transaction_date = transaction_date_of L trans_elem info,
                            transaction_type = code_type trans_code,
                            security_title = title @ '' (Derivative)'',
                            shares = shares_val,
                            price_per_share = num_or price conversion_price,
                            total_value = total,
                            ownership_type = DIRECT,
                            shares_owned_after = Some underlying_shares,
                            filing_date = fi_filing_date info,
                            accession_number = accession,
                            form_type = fi_form_type info\<rparr>))))"

text \<open>\<open>_extract_non_derivative_transactions\<close>: every transaction element that parses, in
  document order; the holdings when there is none.\<close>

definition extract_non_derivative_transactions ::
  "libs \<Rightarrow> element \<Rightarrow> filing_info \<Rightarrow> string \<Rightarrow> insider_transaction list" where
  "extract_non_derivative_transactions L xml_root info accession =
     (case (case el_find xml_root (Desc ''nonDerivativeTable'') of
              None \<Rightarrow> el_find xml_root (Child ''nonDerivativeTable'') | Some t \<Rightarrow> Some t) of
        None \<Rightarrow> []
      | Some non_deriv_table \<Rightarrow>
          (let found = el_findall non_deriv_table (Desc ''nonDerivativeTransaction'');
               trans_elements = (if found = []
                                 then el_findall non_deriv_table (Child ''nonDerivativeTransaction'')
                                 else found);
               transactions = List.map_filter
                 (\<lambda>trans_elem. parse_non_derivative_transaction L trans_elem info accession)
                 trans_elements
           in if transactions = []
              then List.map_filter
                     (\<lambda>holding_elem. parse_non_derivative_holding L holding_elem info accession)
                     (el_findall non_deriv_table (Desc ''nonDerivativeHolding''))
              else transactions))"

definition extract_derivative_transactions ::
  "libs \<Rightarrow> element \<Rightarrow> filing_info \<Rightarrow> string \<Rightarrow> insider_transaction list" where
  "extract_derivative_transactions L xml_root info accession =
     (case el_find xml_root (Desc ''derivativeTable'') of
        None \<Rightarrow> []
      | Some deriv_table \<Rightarrow>
          List.map_filter
            (\<lambda>trans_elem. parse_derivative_transaction L trans_elem info accession)
            (el_findall deriv_table (Desc ''derivativeTransaction'')))"

section \<open>The fallback parser\<close>

text \<open>A BeautifulSoup tree: \<open>find\<close> and \<open>find_all\<close> look through all tags below a tag, in
  document order; \<open>.text\<close> joins all strings below it; a tag used as a condition is
  true.\<close>

fun soup_descendants :: "soup \<Rightarrow> soup list" where
  "soup_descendants (Tag n cs) = concat (map (\<lambda>c. c # soup_descendants c) cs)"
| "soup_descendants (NavigableString s) = []"

fun soup_text :: "soup \<Rightarrow> string" where
  "soup_text (Tag n cs) = concat (map soup_text cs)"
| "soup_text (NavigableString s) = s"

definition is_tag :: "string \<Rightarrow> soup \<Rightarrow> bool" where
  "is_tag name t = (case t of Tag n cs \<Rightarrow> n = name | NavigableString s \<Rightarrow> False)"

definition soup_find_all :: "string \<Rightarrow> soup \<Rightarrow> soup list" where
  "soup_find_all name t = filter (is_tag name) (soup_descendants t)"

definition soup_find :: "string \<Rightarrow> soup \<Rightarrow> soup option" where
  "soup_find name t = (case soup_find_all name t of [] \<Rightarrow> None | x # xs \<Rightarrow> Some x)"

text \<open>Sequencing of steps that can raise.\<close>

definition then_do :: "exn + 'a \<Rightarrow> ('a \<Rightarrow> exn + 'b) \<Rightarrow> exn + 'b" where
  "then_do m f = (case m of Inl e \<Rightarrow> Inl e | Inr x \<Rightarrow> f x)"

text \<open>\<open>trans.find(name).find('value').text\<close>: \<open>AttributeError\<close> on a \<open>None\<close>.\<close>

definition value_text :: "soup \<Rightarrow> string \<Rightarrow> exn + string" where
  "value_text trans_tag name =
     (case soup_find name trans_tag of
        None \<Rightarrow> Inl AttributeError
      | Some t \<Rightarrow> (case soup_find ''value'' t of
                     None \<Rightarrow> Inl AttributeError | Some v \<Rightarrow> Inr (soup_text v)))"

definition float_of :: "libs \<Rightarrow> string \<Rightarrow> exn + rat" where
  "float_of L s = (case py_float L s of None \<Rightarrow> Inl ValueError | Some x \<Rightarrow> Inr x)"

definition soup_price :: "libs \<Rightarrow> soup \<Rightarrow> exn + rat option" where
  "soup_price L trans_tag =
     (case soup_find ''transactionPricePerShare'' trans_tag of
        None \<Rightarrow> Inr None
      | Some price \<Rightarrow>
          (case soup_find ''value'' price of
             None \<Rightarrow> Inr None
           | Some v \<Rightarrow> then_do (float_of L (soup_text v)) (\<lambda>x. Inr (Some x))))"

definition soup_transaction ::
  "libs \<Rightarrow> filing_info \<Rightarrow> string \<Rightarrow> soup \<Rightarrow> exn + insider_transaction" where
  "soup_transaction L info accession trans_tag =
     then_do (value_text trans_tag ''transactionShares'') (\<lambda>shares_text.
     then_do (float_of L shares_text) (\<lambda>shares_val.
     then_do (soup_price L trans_tag) (\<lambda>price_value.
     then_do (value_text trans_tag ''transactionDate'') (\<lambda>date_text.
     then_do (case soup_find ''transactionCode'' trans_tag of
                None \<Rightarrow> Inl AttributeError | Some c \<Rightarrow> Inr (soup_text c)) (\<lambda>code.
     then_do (value_text trans_tag ''securityTitle'') (\<lambda>title.
     then_do (value_text trans_tag ''sharesOwnedFollowingTransaction'') (\<lambda>after_text.
     then_do (float_of L after_text) (\<lambda>after.
       Inr \<lparr>
         insider_name = fi_insider_name info,
         insider_title = fi_insider_title info,
         company_name = fi_company_name info,
         company_cik = fi_company_cik info,
         ticker = fi_ticker info,
         transaction_date = parse_date (lib_strptime L) date_text,
         transaction_type = code_type (Some code),
         security_title = title,
         shares = shares_val,
         price_per_share = price_value,
         total_value = (case price_value of None \<Rightarrow> None
                        | Some p \<Rightarrow> if p = 0 then None else Some (shares_val * p)),
         ownership_type = DIRECT,
         shares_owned_after = Some after,
         filing_date = fi_filing_date info,
         accession_number = accession,
         form_type = fi_form_type info\<rparr>))))))))"

definition soup_filing_info :: "libs \<Rightarrow> soup \<Rightarrow> filing_info" where
  "soup_filing_info L soup =
     \<lparr>fi_company_name = map_option soup_text (soup_find ''issuerName'' soup),
      fi_company_cik = map_option (\<lambda>t. normalize_cik (Some (soup_text t))) (soup_find ''issuerCik'' soup),
      fi_ticker = map_option soup_text (soup_find ''issuerTradingSymbol'' soup),
      fi_insider_name = map_option soup_text (soup_find ''rptOwnerName'' soup),
      fi_insider_cik = None,
      fi_insider_title = map_option soup_text (soup_find ''officerTitle'' soup),
      fi_period_of_report = None,
      fi_filing_date = datetime_now L,
      fi_form_type = ''4''\<rparr>"

text \<open>\<open>_parse_with_beautifulsoup\<close>: every exception is caught, inside the loop for one
  transaction and around the whole body.\<close>

definition parse_with_beautifulsoup :: "libs \<Rightarrow> string \<Rightarrow> string \<Rightarrow> insider_transaction list" where
  "parse_with_beautifulsoup L content accession =
     (case beautifulsoup L content of
        Inl e \<Rightarrow> []
      | Inr soup \<Rightarrow>
          (let info = soup_filing_info L soup in
           if \<not> str_truthy (fi_company_name info) \<or> \<not> str_truthy (fi_insider_name info) then []
           else List.map_filter
                  (\<lambda>trans_tag. case soup_transaction L info accession trans_tag of
                              Inl e \<Rightarrow> None | Inr t \<Rightarrow> Some t)
                  (soup_find_all ''nonDerivativeTransaction'' soup)))"

section \<open>parse\_form4\_xml\<close>

text \<open>\<open>'xmlns' in xml_content\<close>.\<close>

fun contains :: "string \<Rightarrow> string \<Rightarrow> bool" where
  "contains sub [] = (sub = [])"
| "contains sub (c # cs) = (take (length sub) (c # cs) = sub \<or> contains sub cs)"

text \<open>\<open>re.sub(r'xmlns[^=]*="[^"]*"', '', s)\<close> and \<open>re.sub(r'xmlns:[^=]*="[^"]*"', '', s)\<close>:
  \<open>match_decl pre s\<close> is the length of the match at the start of \<open>s\<close>, for \<open>pre\<close> one of
  \<open>xmlns\<close> and \<open>xmlns:\<close>; the second argument of \<open>sub_decl\<close> counts the characters of a
  match that are still to be dropped.\<close>

definition match_decl :: "string \<Rightarrow> string \<Rightarrow> nat option" where
  "match_decl pre s =
     (if take (length pre) s = pre then
        (let r1 = drop (length pre) s;
             n1 = length (takeWhile (\<lambda>c. c \<noteq> CHR ''='') r1);
             r2 = drop n1 r1
         in if take 2 r2 = [CHR ''='', CHR 0x22] then
              (let r3 = drop 2 r2;
                   n3 = length (takeWhile (\<lambda>c. c \<noteq> CHR 0x22) r3)
               in if drop n3 r3 \<noteq> [] then Some (length pre + n1 + 2 + n3 + 1) else None)
            else None)
      else None)"

fun sub_decl :: "string \<Rightarrow> nat \<Rightarrow> string \<Rightarrow> string" where
  "sub_decl pre skip [] = []"
| "sub_decl pre skip (c # cs) =
     (if 0 < skip then sub_decl pre (skip - 1) cs
      else (case match_decl pre (c # cs) of
              Some n \<Rightarrow> sub_decl pre (n - 1) cs
            | None \<Rightarrow> c # sub_decl pre 0 cs))"

definition strip_namespaces :: "string \<Rightarrow> string" where
  "strip_namespaces xml_content =
     (if contains ''xmlns'' xml_content
      then sub_decl ''xmlns:'' 0 (sub_decl ''xmlns'' 0 xml_content)
      else xml_content)"

text \<open>\<open>parse_form4_xml\<close>: only \<open>ET.ParseError\<close> is caught, and leads to the fallback
  parser; any other exception of the \<open>try\<close> block goes to the caller.\<close>

definition parse_form4_xml :: "libs \<Rightarrow> string \<Rightarrow> string \<Rightarrow> exn + insider_transaction list" where
  "parse_form4_xml L xml_content accession =
     (case et_fromstring L (strip_namespaces xml_content) of
        Inl e \<Rightarrow>
          if e = ParseError then Inr (parse_with_beautifulsoup L xml_content accession)
          else Inl e
      | Inr xml_root \<Rightarrow>
          (case extract_filing_info L xml_root of
             None \<Rightarrow> Inr []
           | Some info \<Rightarrow>
               Inr (extract_non_derivative_transactions L xml_root info accession @
                    extract_derivative_transactions L xml_root info accession)))"

section \<open>The total value of a parsed transaction\<close>

text \<open>The price that the two transaction parsers read from the transaction itself,
  \<open>clean_number(self._get_text(trans_amounts, './/transactionPricePerShare/value'))\<close>, and
  the conversion or exercise price that the derivative parser reads,
  \<open>clean_number(self._get_text(trans_elem, './/conversionOrExercisePrice/value'))\<close>.\<close>

definition transaction_price :: "libs \<Rightarrow> element \<Rightarrow> rat option" where
  "transaction_price L trans_elem =
     (case el_find trans_elem (Desc ''transactionAmounts'') of
        None \<Rightarrow> None
      | Some trans_amounts \<Rightarrow>
          clean_number (py_float L)
            (get_text (Some trans_amounts) (DescChild ''transactionPricePerShare'' ''value'') None))"

definition conversion_price :: "libs \<Rightarrow> element \<Rightarrow> rat option" where
  "conversion_price L trans_elem =
     clean_number (py_float L)
       (get_text (Some trans_elem) (DescChild ''conversionOrExercisePrice'' ''value'') None)"

text \<open>Claim C1, as the code has it. A record parsed from a non-derivative transaction has
  the price of the transaction as its price, has \<open>total_value = shares * price_per_share\<close>
  when that price is present and not zero, and has no total value when it is missing or
  zero. A record parsed from a derivative transaction has \<open>total_value = shares * p\<close>
  exactly when the price \<open>p\<close> of the transaction itself is present and not zero, and no
  total value otherwise; its \<open>price_per_share\<close> is that price when it is present and not
  zero, and the conversion or exercise price otherwise. So such a record has no total value
  when it has no price, a total value that it has is \<open>shares * price_per_share\<close>, and it can
  have a price and no total value.\<close>

theorem total_value_of_parsed_transaction:
  "(parse_non_derivative_transaction L e info accession = Some r \<longrightarrow>
      price_per_share r = transaction_price L e \<and>
      total_value r =
        (case price_per_share r of
           None \<Rightarrow> None | Some p \<Rightarrow> if p = 0 then None else Some (shares r * p))) \<and>
   (parse_derivative_transaction L e info accession = Some r \<longrightarrow>
      price_per_share r =
        (case transaction_price L e of
           None \<Rightarrow> conversion_price L e
         | Some p \<Rightarrow> if p = 0 then conversion_price L e else Some p) \<and>
      total_value r =
        (case transaction_price L e of
           None \<Rightarrow> None | Some p \<Rightarrow> if p = 0 then None else Some (shares r * p)) \<and>
      (price_per_share r = None \<longrightarrow> total_value r = None) \<and>
      (\<forall>v. total_value r = Some v \<longrightarrow>
         (\<exists>p. p \<noteq> 0 \<and> transaction_price L e = Some p \<and> price_per_share r = Some p \<and>
              v = shares r * p)))"
proof (intro conjI impI)
  assume n: "parse_non_derivative_transaction L e info accession = Some r"
  then show "price_per_share r = transaction_price L e"
    by (auto simp: parse_non_derivative_transaction_def transaction_price_def Let_def
        split: option.splits if_splits)
  from n show "total_value r =
        (case price_per_share r of
           None \<Rightarrow> None | Some p \<Rightarrow> if p = 0 then None else Some (shares r * p))"
    by (auto simp: parse_non_derivative_transaction_def Let_def split: option.splits if_splits)
next
  assume d: "parse_derivative_transaction L e info accession = Some r"
  then show p: "price_per_share r =
        (case transaction_price L e of
           None \<Rightarrow> conversion_price L e
         | Some p \<Rightarrow> if p = 0 then conversion_price L e else Some p)"
    by (auto simp: parse_derivative_transaction_def transaction_price_def conversion_price_def
        Let_def num_or_def num_truthy_def split: option.splits if_splits)
  from d show t: "total_value r =
        (case transaction_price L e of
           None \<Rightarrow> None | Some p \<Rightarrow> if p = 0 then None else Some (shares r * p))"
    by (auto simp: parse_derivative_transaction_def transaction_price_def Let_def
        split: option.splits if_splits)
  from p t show "\<forall>v. total_value r = Some v \<longrightarrow>
         (\<exists>p. p \<noteq> 0 \<and> transaction_price L e = Some p \<and> price_per_share r = Some p \<and>
              v = shares r * p)"
    by (auto split: option.splits if_splits)
  assume "price_per_share r = None"
  with p t show "total_value r = None"
    by (auto split: option.splits if_splits)
qed


section \<open>What parse\_form4\_xml returns\<close>

text \<open>Claim C3, as the code has it. \<open>parse_form4_xml\<close> raises an exception to its caller
  exactly when \<open>ET.fromstring\<close> raises one that is not a \<open>ParseError\<close>, and it is that
  exception. After a \<open>ParseError\<close> it returns what the fallback parser returns, which is
  the empty list when the fallback does not find both the company name and the insider
  name, or when BeautifulSoup itself fails. When the document parses it returns a list,
  the empty one when the document has no filing information.\<close>

theorem parse_form4_xml_outcomes:
  "(\<forall>e. parse_form4_xml L xml_content accession = Inl e \<longleftrightarrow>
        et_fromstring L (strip_namespaces xml_content) = Inl e \<and> e \<noteq> ParseError) \<and>
   (et_fromstring L (strip_namespaces xml_content) = Inl ParseError \<longrightarrow>
      parse_form4_xml L xml_content accession =
        Inr (parse_with_beautifulsoup L xml_content accession) \<and>
      (\<forall>soup. beautifulsoup L xml_content = Inr soup \<and>
         \<not> (str_truthy (fi_company_name (soup_filing_info L soup)) \<and>
            str_truthy (fi_insider_name (soup_filing_info L soup))) \<longrightarrow>
         parse_form4_xml L xml_content accession = Inr []) \<and>
      (\<forall>e. beautifulsoup L xml_content = Inl e \<longrightarrow>
         parse_form4_xml L xml_content accession = Inr [])) \<and>
   (\<forall>xml_root. et_fromstring L (strip_namespaces xml_content) = Inr xml_root \<longrightarrow>
      (\<exists>transactions. parse_form4_xml L xml_content accession = Inr transactions) \<and>
      (extract_filing_info L xml_root = None \<longrightarrow>
         parse_form4_xml L xml_content accession = Inr []))"
proof (cases "et_fromstring L (strip_namespaces xml_content)")
  case (Inl e)
  then show ?thesis
    by (auto simp: parse_form4_xml_def parse_with_beautifulsoup_def Let_def)
next
  case (Inr xml_root)
  then show ?thesis
    by (auto simp: parse_form4_xml_def split: option.splits)
qed


section \<open>A sample document\<close>

text \<open>Stand-ins to run the parser with. \<open>float_plain\<close> reads decimal literals (an optional
  minus sign, digits, an optional fraction), as \<open>float\<close> does on them. The XML parser
  knows one document, the serialization of \<open>sample_document\<close>, and fails with
  \<open>ParseError\<close> on every other text; the tag-soup parser knows the first 200 characters
  of that text, for which it recovers \<open>sample_soup\<close>, and fails on every other text.\<close>

definition float_plain :: "string \<Rightarrow> rat option" where
  "float_plain s =
     (let negative = (s \<noteq> [] \<and> hd s = CHR ''-'');
          body = (if negative then tl s else s);
          int_part = takeWhile (\<lambda>c. c \<noteq> CHR ''.'') body;
          frac_part = (case dropWhile (\<lambda>c. c \<noteq> CHR ''.'') body of [] \<Rightarrow> [] | d # ds \<Rightarrow> ds)
      in if int_part = [] \<and> frac_part = [] then None
         else (case (number_of 0 int_part, number_of 0 frac_part) of
                 (Some i, Some f) \<Rightarrow>
                   (let v = of_int i + of_int f / 10 ^ length frac_part
                    in Some (if negative then - v else v))
               | _ \<Rightarrow> None))"

definition leaf :: "string \<Rightarrow> string \<Rightarrow> element" where
  "leaf t s = Element t (Some s) []"

definition valued :: "string \<Rightarrow> string \<Rightarrow> element" where
  "valued t s = Element t None [leaf ''value'' s]"

text \<open>A sale of 1,000 shares at 50, an award of 200 shares at price 0, and an option
  exercise with no price of its own and an exercise price of 25.\<close>

definition sale_transaction :: element where
  "sale_transaction =
     Element ''nonDerivativeTransaction'' None
       [valued ''securityTitle'' ''Common Stock'',
        valued ''transactionDate'' ''2024-05-31'',
        Element ''transactionCoding'' None
          [leaf ''transactionFormType'' ''4'', leaf ''transactionCode'' ''S''],
        Element ''transactionAmounts'' None
          [valued ''transactionShares'' ''1,000'',
           valued ''transactionPricePerShare'' ''50'',
           valued ''transactionAcquiredDisposedCode'' ''D''],
        Element ''postTransactionAmounts'' None
          [valued ''sharesOwnedFollowingTransaction'' ''25000''],
        Element ''ownershipNature'' None [valued ''directOrIndirectOwnership'' ''D'']]"

definition award_transaction :: element where
  "award_transaction =
     Element ''nonDerivativeTransaction'' None
       [valued ''securityTitle'' ''Common Stock'',
        valued ''transactionDate'' ''2024-01-02'',
        Element ''transactionCoding'' None
          [leaf ''transactionFormType'' ''4'', leaf ''transactionCode'' ''A''],
        Element ''transactionAmounts'' None
          [valued ''transactionShares'' ''200'',
           valued ''transactionPricePerShare'' ''0'',
           valued ''transactionAcquiredDisposedCode'' ''A''],
        Element ''postTransactionAmounts'' None
          [valued ''sharesOwnedFollowingTransaction'' ''26000''],
        Element ''ownershipNature'' None [valued ''directOrIndirectOwnership'' ''D'']]"

definition option_transaction :: element where
  "option_transaction =
     Element ''derivativeTransaction'' None
       [valued ''securityTitle'' ''Stock Option'',
        valued ''conversionOrExercisePrice'' ''25'',
        valued ''transactionDate'' ''2024-05-31'',
        Element ''transactionCoding'' None
          [leaf ''transactionFormType'' ''4'', leaf ''transactionCode'' ''M''],
        Element ''transactionAmounts'' None
          [valued ''transactionShares'' ''500'',
           valued ''transactionAcquiredDisposedCode'' ''D''],
        Element ''underlyingSecurity'' None
          [valued ''underlyingSecurityTitle'' ''Common Stock'',
           valued ''underlyingSecurityShares'' ''500'']]"

definition sample_document :: element where
  "sample_document =
     Element ''ownershipDocument'' None
       [leaf ''periodOfReport'' ''2024-05-31'',
        Element ''issuer'' None
          [leaf ''issuerCik'' ''783325'', leaf ''issuerName'' ''WEC ENERGY GROUP, INC.''],
        Element ''reportingOwner'' None
          [Element ''reportingOwnerId'' None [leaf ''rptOwnerName'' ''KLAPPA GALE E'']],
        Element ''nonDerivativeTable'' None [sale_transaction]]"

fun serialize :: "element \<Rightarrow> string" where
  "serialize (Element t x cs) =
     ''<'' @ t @ ''>'' @ (case x of None \<Rightarrow> [] | Some s \<Rightarrow> s) @ concat (map serialize cs) @
     ''</'' @ t @ ''>''"

definition sample_soup :: soup where
  "sample_soup =
     Tag ''[document]''
       [Tag ''ownershipDocument''
          [Tag ''periodOfReport'' [NavigableString ''2024-05-31''],
           Tag ''issuer''
             [Tag ''issuerCik'' [NavigableString ''783325''],
              Tag ''issuerName'' [NavigableString ''WEC ENERGY GROUP, INC.'']],
           Tag ''reportingOwner'' [Tag ''reportingOwnerId'' []]]]"

definition sample_libs :: libs where
  "sample_libs =
     \<lparr>et_fromstring = (\<lambda>s. if s = serialize sample_document then Inr sample_document
                            else Inl ParseError),
      beautifulsoup = (\<lambda>s. if s = take 200 (serialize sample_document) then Inr sample_soup
                            else Inl OtherError),
      py_float = float_plain,
      lib_strptime = strptime_iso,
      datetime_now = 0\<rparr>"

definition sample_info :: filing_info where
  "sample_info =
     \<lparr>fi_company_name = Some ''WEC ENERGY GROUP, INC.'',
      fi_company_cik = Some ''0000783325'',
      fi_ticker = None,
      fi_insider_name = Some ''KLAPPA GALE E'',
      fi_insider_cik = None,
      fi_insider_title = None,
      fi_period_of_report = Some (date_ordinal 2024 5 31),
      fi_filing_date = 0,
      fi_form_type = ''4''\<rparr>"


definition warrant_transaction :: element where
  "warrant_transaction =
     Element ''derivativeTransaction'' None
       [valued ''securityTitle'' ''Warrant'',
        valued ''conversionOrExercisePrice'' ''25'',
        Element ''transactionCoding'' None
          [leaf ''transactionFormType'' ''4'', leaf ''transactionCode'' ''P''],
        Element ''transactionAmounts'' None
          [valued ''transactionShares'' ''100'',
           valued ''transactionPricePerShare'' ''2.50'']]"

lemmas sample_defs =
  sample_libs_def sample_info_def sample_document_def sale_transaction_def
  award_transaction_def option_transaction_def warrant_transaction_def valued_def leaf_def
  float_plain_def digit_of_def strptime_iso_def date_ordinal_def days_before_month_def
  days_in_month_def is_leap_def

lemmas parser_defs =
  parse_non_derivative_transaction_def parse_derivative_transaction_def
  parse_non_derivative_holding_def extract_filing_info_def
  extract_non_derivative_transactions_def extract_derivative_transactions_def
  get_text_def found_text_def el_find_def el_findall_def el_truthy_def clean_number_def
  normalize_cik_def is_digit_def relationship_titles_def ownership_of_def
  transaction_date_of_def code_type_def transaction_code_map_def str_truthy_def str_or_def
  num_truthy_def num_or_def parse_date_def date_formats_def py_strip_def py_isspace_def
  List.map_filter_def Let_def


text \<open>Claim C1 as stated does not hold: an award at price 0 is parsed into a record with
  price 0 and no total value, where \<open>shares * price\<close> is 0; and an option with an exercise
  price of 25 and no transaction price is parsed into a record with price 25 and no total
  value.\<close>

theorem total_value_missing_for_price_zero:
  "map_option (\<lambda>r. (shares r, price_per_share r, total_value r))
     (parse_non_derivative_transaction sample_libs award_transaction sample_info ''0001'') =
     Some (200, Some 0, None) \<and>
   map_option (\<lambda>r. (shares r, price_per_share r, total_value r))
     (parse_derivative_transaction sample_libs option_transaction sample_info ''0001'') =
     Some (500, Some 25, None)"
  by (simp add: parser_defs sample_defs)


text \<open>The sale of 1,000 shares at 50 has the total value 50,000, a warrant for 100
  shares at 2.50 has the total value 250, and the option with no price of its own has the
  exercise price 25 as its price and no total value.\<close>

theorem total_value_of_parsed_transaction_witness:
  "map_option (\<lambda>r. (shares r, price_per_share r, total_value r))
     (parse_non_derivative_transaction sample_libs sale_transaction sample_info ''0001'') =
     Some (1000, Some 50, Some 50000) \<and>
   map_option (\<lambda>r. (shares r, price_per_share r, total_value r))
     (parse_derivative_transaction sample_libs warrant_transaction sample_info ''0001'') =
     Some (100, Some (5 / 2), Some 250) \<and>
   map_option (\<lambda>r. (shares r, price_per_share r, total_value r))
     (parse_derivative_transaction sample_libs option_transaction sample_info ''0001'') =
     Some (500, Some 25, None)"
proof -
  have "map_option shares
     (parse_non_derivative_transaction sample_libs sale_transaction sample_info ''0001'') =
     Some 1000"
    by (simp add: parser_defs sample_defs)
  then obtain r where r: "parse_non_derivative_transaction sample_libs sale_transaction
      sample_info ''0001'' = Some r" "shares r = 1000"
    by auto
  have "map_option shares
     (parse_derivative_transaction sample_libs warrant_transaction sample_info ''0001'') =
     Some 100"
    by (simp add: parser_defs sample_defs)
  then obtain d where d: "parse_derivative_transaction sample_libs warrant_transaction
      sample_info ''0001'' = Some d" "shares d = 100"
    by auto
  have "map_option shares
     (parse_derivative_transaction sample_libs option_transaction sample_info ''0001'') =
     Some 500"
    by (simp add: parser_defs sample_defs)
  then obtain g where g: "parse_derivative_transaction sample_libs option_transaction
      sample_info ''0001'' = Some g" "shares g = 500"
    by auto
  have p: "transaction_price sample_libs sale_transaction = Some 50"
    "transaction_price sample_libs warrant_transaction = Some (5 / 2)"
    "transaction_price sample_libs option_transaction = None"
    "conversion_price sample_libs option_transaction = Some 25"
    by (simp_all add: transaction_price_def conversion_price_def parser_defs sample_defs)
  from total_value_of_parsed_transaction [of sample_libs sale_transaction sample_info "''0001''" r]
    r p have "price_per_share r = Some 50 \<and> total_value r = Some 50000" by simp
  moreover
  from total_value_of_parsed_transaction [of sample_libs warrant_transaction sample_info "''0001''" d]
    d p have "price_per_share d = Some (5 / 2) \<and> total_value d = Some 250" by simp
  moreover
  from total_value_of_parsed_transaction [of sample_libs option_transaction sample_info "''0001''" g]
    g p have "price_per_share g = Some 25 \<and> total_value g = None" by simp
  ultimately show ?thesis using r d g by simp
qed


lemma sample_text_clean:
  "strip_namespaces (serialize sample_document) = serialize sample_document"
  by (simp add: strip_namespaces_def sample_defs)

lemma sample_cut_clean:
  "strip_namespaces (take 200 (serialize sample_document)) = take 200 (serialize sample_document)"
  by (simp add: strip_namespaces_def sample_defs)

lemma sample_cut_differs:
  "take 200 (serialize sample_document) \<noteq> serialize sample_document"
proof
  assume "take 200 (serialize sample_document) = serialize sample_document"
  then have "length (take 200 (serialize sample_document)) = length (serialize sample_document)"
    by simp
  then show False by (simp add: sample_defs)
qed

lemma sample_filing_info: "extract_filing_info sample_libs sample_document = Some sample_info"
  by (simp add: parser_defs sample_defs eval_nat_numeral)

lemma sample_table:
  "el_find sample_document (Desc ''nonDerivativeTable'') =
     Some (Element ''nonDerivativeTable'' None [sale_transaction]) \<and>
   el_find sample_document (Desc ''derivativeTable'') = None"
  by (simp add: el_find_def el_findall_def sample_document_def sale_transaction_def valued_def
      leaf_def)

lemma sample_rows:
  "el_findall (Element ''nonDerivativeTable'' None [sale_transaction])
     (Desc ''nonDerivativeTransaction'') = [sale_transaction]"
  by (simp add: el_findall_def sale_transaction_def valued_def leaf_def)

lemma sample_sale:
  "map_option (\<lambda>r. (transaction_type r, shares r, total_value r))
     (parse_non_derivative_transaction sample_libs sale_transaction sample_info ''0001'') =
     Some (SALE, 1000, Some 50000)"
  by (simp add: parser_defs sample_defs)

lemma sample_non_derivative:
  "map (\<lambda>r. (transaction_type r, shares r, total_value r))
     (extract_non_derivative_transactions sample_libs sample_document sample_info ''0001'') =
     [(SALE, 1000, Some 50000)]"
proof -
  from sample_sale obtain r where
    r: "parse_non_derivative_transaction sample_libs sale_transaction sample_info ''0001'' = Some r"
      "(transaction_type r, shares r, total_value r) = (SALE, 1000, Some 50000)"
    by auto
  from r(1) have "extract_non_derivative_transactions sample_libs sample_document sample_info
      ''0001'' = [r]"
    by (simp add: extract_non_derivative_transactions_def sample_table sample_rows
        List.map_filter_def)
  with r(2) show ?thesis by simp
qed

lemma sample_derivative:
  "extract_derivative_transactions sample_libs sample_document sample_info ''0001'' = []"
  by (simp add: extract_derivative_transactions_def sample_table)


text \<open>A Python \<open>str\<close> can hold a lone surrogate, a code point from U+D800 to U+DFFF.
  \<open>ET.fromstring\<close> encodes its text as UTF-8 before it parses, and on such a text it
  raises \<open>UnicodeEncodeError\<close>, which is not a \<open>ParseError\<close>. The characters of the model
  end at code point 255, so \<open>surrogate_text\<close> stands for the text made of \<open><a>\<close>, the
  code point U+D800 and \<open></a>\<close>, with a question mark in the place of the surrogate, and
  the XML parser of \<open>surrogate_libs\<close> does on it what \<open>ET.fromstring\<close> does on that text.\<close>

definition surrogate_text :: string where
  "surrogate_text = ''<a>?</a>''"

definition surrogate_libs :: libs where
  "surrogate_libs =
     sample_libs\<lparr>et_fromstring :=
       (\<lambda>s. if s = surrogate_text then Inl UnicodeEncodeError else et_fromstring sample_libs s)\<rparr>"

text \<open>Claim C3 as stated does not hold: on the text with a lone surrogate
  \<open>parse_form4_xml\<close> raises \<open>UnicodeEncodeError\<close> to its caller.\<close>

theorem parse_form4_xml_raises:
  "parse_form4_xml surrogate_libs surrogate_text ''0001'' = Inl UnicodeEncodeError"
  by (simp add: parse_form4_xml_def surrogate_libs_def surrogate_text_def strip_namespaces_def)

text \<open>The sample document gives its one sale; cut after 200 characters it no longer parses,
  the fallback finds no insider name, and the result is the empty list; and on the text
  with a lone surrogate the only exception raised is the one of \<open>ET.fromstring\<close>.\<close>

theorem parse_form4_xml_outcomes_witness:
  "map_sum id (map (\<lambda>r. (transaction_type r, shares r, total_value r)))
     (parse_form4_xml sample_libs (serialize sample_document) ''0001'') =
     Inr [(SALE, 1000, Some 50000)] \<and>
   parse_form4_xml sample_libs (take 200 (serialize sample_document)) ''0001'' = Inr [] \<and>
   (\<forall>e. parse_form4_xml surrogate_libs surrogate_text ''0001'' = Inl e \<longleftrightarrow>
      e = UnicodeEncodeError)"
proof -
  let ?cut = "take 200 (serialize sample_document)"
  have p: "et_fromstring sample_libs (strip_namespaces ?cut) = Inl ParseError"
    using sample_cut_differs by (simp add: sample_cut_clean sample_libs_def)
  have b: "beautifulsoup sample_libs ?cut = Inr sample_soup"
    by (simp add: sample_libs_def)
  have n: "\<not> (str_truthy (fi_company_name (soup_filing_info sample_libs sample_soup)) \<and>
      str_truthy (fi_insider_name (soup_filing_info sample_libs sample_soup)))"
    by (simp add: soup_filing_info_def soup_find_def soup_find_all_def is_tag_def sample_soup_def
        str_truthy_def)
  from parse_form4_xml_outcomes [of sample_libs ?cut "''0001''"] p b n
  have cut: "parse_form4_xml sample_libs ?cut ''0001'' = Inr []" by blast
  have s: "et_fromstring surrogate_libs (strip_namespaces surrogate_text) = Inl UnicodeEncodeError"
    by (simp add: surrogate_libs_def surrogate_text_def strip_namespaces_def)
  from parse_form4_xml_outcomes [of surrogate_libs surrogate_text "''0001''"] s
  have raises: "\<forall>e. parse_form4_xml surrogate_libs surrogate_text ''0001'' = Inl e \<longleftrightarrow>
      e = UnicodeEncodeError"
    by auto
  have "et_fromstring sample_libs (strip_namespaces (serialize sample_document)) =
      Inr sample_document"
    by (simp add: sample_text_clean sample_libs_def)
  then have "parse_form4_xml sample_libs (serialize sample_document) ''0001'' =
      Inr (extract_non_derivative_transactions sample_libs sample_document sample_info ''0001'' @
           extract_derivative_transactions sample_libs sample_document sample_info ''0001'')"
    by (simp add: parse_form4_xml_def sample_filing_info)
  with cut raises show ?thesis by (simp add: sample_non_derivative sample_derivative)
qed

section \<open>sec\_fulltext\_search.py: generate\_name\_variations\<close>



section \<open>cross\_company\_search.py: get\_all\_insider\_companies\<close>

text \<open>What \<open>get_insider_transactions\<close> returns: a dict with the number of transactions,
  the transactions as dicts, and the summary that \<open>calculate_insider_summary\<close> makes, whose
  \<open>date_range\<close> (the first and the last date, in ISO format) is absent when there is no
  transaction.\<close>

record insider_summary =
  sum_total_shares_bought :: rat
  sum_total_shares_sold :: rat
  sum_net_shares :: rat
  sum_date_range :: "(string \<times> string) option"

record insider_result =
  ir_transaction_count :: int
  ir_transactions :: "pydict list"
  ir_summary :: insider_summary

text \<open>The dataclass \<open>CompanyInsiderSummary\<close>.\<close>

record company_insider_summary =
  cs_ticker :: pyval
  cs_company_name :: pyval
  cs_cik :: pyval
  cs_transaction_count :: rat
  cs_total_shares_bought :: rat
  cs_total_shares_sold :: rat
  cs_net_shares :: rat
  cs_first_transaction_date :: "pydate option"
  cs_last_transaction_date :: "pydate option"
  cs_current_position :: pyval
  cs_position_status :: string

text \<open>What the search takes from outside: the two readings of \<open>date.today()\<close>, the
  full-text searcher (\<open>SECFullTextSearcher(user_agent).get_companies_for_person\<close>),
  \<open>get_insider_transactions\<close> for a person, a company and a date range, what the request
  for the company tickers in \<open>get_all_public_companies\<close> gives (the dicts among the values
  of the JSON response, or the exception of the request), the order in which
  \<open>as_completed\<close> yields the futures (a permutation of them), \<open>str.upper\<close> and
  \<open>strptime\<close>. The user agent is part of these.\<close>

record services =
  date_today :: pydate
  date_today_after :: pydate
  get_companies_for_person :: "string \<Rightarrow> exn + pydict list"
  get_insider_transactions :: "string \<Rightarrow> pyval \<Rightarrow> pydate \<Rightarrow> pydate \<Rightarrow> exn + insider_result"
  company_tickers :: "exn + pydict list"
  as_completed ::
    "(exn + company_insider_summary option) list \<Rightarrow> (exn + company_insider_summary option) list"
  str_upper :: "string \<Rightarrow> string"
  svc_strptime :: strptime












text \<open>\<open>get_all_public_companies\<close>: every exception is caught and gives the empty list.\<close>

definition get_all_public_companies :: "services \<Rightarrow> pydict list" where
  "get_all_public_companies S =
     (case company_tickers S of Inl e \<Rightarrow> [] | Inr companies \<Rightarrow> companies)"











section \<open>The outcomes of the cross-company search\<close>


section \<open>A sample search\<close>
















end
